theory Spec2Isabelle
  imports Complex_Main
begin

section \<open>Floating-point values\<close>

text \<open>
  The program computes with IEEE doubles (Python \<^verbatim>\<open>float\<close>, numpy \<^verbatim>\<open>float64\<close>). A
  double is a real number, an infinity or a not-a-number; the two zeros are not
  distinguished. Inputs (temperature, voltage, range, noise) are finite doubles.
\<close>

datatype npfloat = Fin real | PInf | NInf | NaN

text \<open>
  The arithmetic unit. An addition, subtraction, multiplication or division of two
  finite doubles returns the rounding \<open>rnd\<close> of the exact result: a finite double, or an
  infinity on overflow. \<^verbatim>\<open>np.exp\<close> on a finite double returns \<open>fexp\<close> of it (the
  library function is not the rounding of the exact exponential), and \<^verbatim>\<open>round(x, n)\<close>
  on a finite double returns \<open>fround\<close> of it. A decimal literal of the source that is
  not a double itself is read as its rounding. The three functions are parameters of the
  model: what is proved holds for every rounding, and a theorem that needs a property of
  the rounding (that it is monotone, that it keeps \<open>0\<close>) says so.
\<close>

record fpu =
  rnd :: "real \<Rightarrow> npfloat"
  fexp :: "real \<Rightarrow> npfloat"
  fround :: "real \<Rightarrow> nat \<Rightarrow> npfloat"

text \<open>
  The unit that does not round, for evaluating the model at concrete inputs. Its
  \<open>fround\<close> rounds to the nearest multiple of \<open>10 ^ (- n)\<close>, ties to the even one.
\<close>

definition rint :: "real \<Rightarrow> int" where
  "rint x = (let f = \<lfloor>x\<rfloor>; d = x - of_int f in
     if d < 1 / 2 then f else if 1 / 2 < d then f + 1 else if even f then f else f + 1)"

definition exact_fpu :: fpu where
  "exact_fpu = \<lparr>rnd = Fin, fexp = (\<lambda>x. Fin (exp x)),
                 fround = (\<lambda>x n. Fin (of_int (rint (x * 10 ^ n)) / 10 ^ n))\<rparr>"

definition inf_of_sign :: "real \<Rightarrow> npfloat" where
  "inf_of_sign x = (if 0 < x then PInf else if x < 0 then NInf else NaN)"

fun np_neg :: "npfloat \<Rightarrow> npfloat" where
  "np_neg (Fin x) = Fin (- x)"
| "np_neg PInf = NInf"
| "np_neg NInf = PInf"
| "np_neg NaN = NaN"

fun np_add :: "fpu \<Rightarrow> npfloat \<Rightarrow> npfloat \<Rightarrow> npfloat" where
  "np_add F (Fin x) (Fin y) = rnd F (x + y)"
| "np_add F NaN b = NaN"
| "np_add F a NaN = NaN"
| "np_add F PInf NInf = NaN"
| "np_add F NInf PInf = NaN"
| "np_add F PInf b = PInf"
| "np_add F NInf b = NInf"
| "np_add F a PInf = PInf"
| "np_add F a NInf = NInf"

definition np_sub :: "fpu \<Rightarrow> npfloat \<Rightarrow> npfloat \<Rightarrow> npfloat" where
  "np_sub F a b = np_add F a (np_neg b)"

fun np_mul :: "fpu \<Rightarrow> npfloat \<Rightarrow> npfloat \<Rightarrow> npfloat" where
  "np_mul F (Fin x) (Fin y) = rnd F (x * y)"
| "np_mul F NaN b = NaN"
| "np_mul F a NaN = NaN"
| "np_mul F (Fin x) PInf = inf_of_sign x"
| "np_mul F (Fin x) NInf = inf_of_sign (- x)"
| "np_mul F PInf (Fin y) = inf_of_sign y"
| "np_mul F NInf (Fin y) = inf_of_sign (- y)"
| "np_mul F PInf PInf = PInf"
| "np_mul F NInf NInf = PInf"
| "np_mul F PInf NInf = NInf"
| "np_mul F NInf PInf = NInf"

text \<open>
  \<^verbatim>\<open>a / b\<close> on numpy operands: numpy does not raise on a zero divisor, it returns an
  infinity of the sign of \<open>a\<close>, or nan for \<open>0 / 0\<close>. (The zero divisors of the program
  are positive zeros.)
\<close>

fun np_true_divide :: "fpu \<Rightarrow> npfloat \<Rightarrow> npfloat \<Rightarrow> npfloat" where
  "np_true_divide F (Fin x) (Fin y) = (if y = 0 then inf_of_sign x else rnd F (x / y))"
| "np_true_divide F NaN b = NaN"
| "np_true_divide F a NaN = NaN"
| "np_true_divide F (Fin x) PInf = Fin 0"
| "np_true_divide F (Fin x) NInf = Fin 0"
| "np_true_divide F PInf (Fin y) = (if 0 \<le> y then PInf else NInf)"
| "np_true_divide F NInf (Fin y) = (if 0 \<le> y then NInf else PInf)"
| "np_true_divide F PInf b = NaN"
| "np_true_divide F NInf b = NaN"

text \<open>\<^verbatim>\<open>np.clip(a, lo, hi)\<close> is \<^verbatim>\<open>minimum(maximum(a, lo), hi)\<close>; nan stays nan.\<close>

fun np_clip :: "npfloat \<Rightarrow> real \<Rightarrow> real \<Rightarrow> npfloat" where
  "np_clip (Fin x) lo hi = Fin (min (max x lo) hi)"
| "np_clip PInf lo hi = Fin hi"
| "np_clip NInf lo hi = Fin (min lo hi)"
| "np_clip NaN lo hi = NaN"

fun np_exp :: "fpu \<Rightarrow> npfloat \<Rightarrow> npfloat" where
  "np_exp F (Fin x) = fexp F x"
| "np_exp F PInf = PInf"
| "np_exp F NInf = Fin 0"
| "np_exp F NaN = NaN"

fun np_abs :: "npfloat \<Rightarrow> npfloat" where
  "np_abs (Fin x) = Fin \<bar>x\<bar>"
| "np_abs PInf = PInf"
| "np_abs NInf = PInf"
| "np_abs NaN = NaN"

text \<open>The IEEE comparisons: every comparison with nan is false.\<close>

fun np_le :: "npfloat \<Rightarrow> npfloat \<Rightarrow> bool" where
  "np_le (Fin x) (Fin y) = (x \<le> y)"
| "np_le NaN b = False"
| "np_le a NaN = False"
| "np_le NInf b = True"
| "np_le a PInf = True"
| "np_le PInf b = False"
| "np_le a NInf = False"

fun np_lt :: "npfloat \<Rightarrow> npfloat \<Rightarrow> bool" where
  "np_lt (Fin x) (Fin y) = (x < y)"
| "np_lt NaN b = False"
| "np_lt a NaN = False"
| "np_lt PInf b = False"
| "np_lt a NInf = False"
| "np_lt NInf b = True"
| "np_lt a PInf = True"

definition np_ge :: "npfloat \<Rightarrow> npfloat \<Rightarrow> bool" where
  "np_ge a b = np_le b a"

text \<open>\<^verbatim>\<open>round(v, ndigits)\<close> on a numpy double; an infinity or a nan is returned as it is.\<close>

fun py_round :: "fpu \<Rightarrow> npfloat \<Rightarrow> nat \<Rightarrow> npfloat" where
  "py_round F (Fin x) ndigits = fround F x ndigits"
| "py_round F PInf ndigits = PInf"
| "py_round F NInf ndigits = NInf"
| "py_round F NaN ndigits = NaN"

section \<open>The physics engine\<close>

datatype py_error =
  AttributeError string | ValueError string | IndexError string | OverflowError string

definition BOLTZMANN_K :: real where
  "BOLTZMANN_K = 1380649 / 10 ^ 29"

definition ELECTRON_Q :: real where
  "ELECTRON_Q = 160217663 / 10 ^ 27"

text \<open>
  An instance of \<^verbatim>\<open>class DiodePhysics\<close>. The attributes \<^verbatim>\<open>Is\<close> and \<^verbatim>\<open>n\<close> are assigned
  only inside the branches of the constructor, so they are optional: \<open>None\<close> is an
  attribute the instance does not have.
\<close>

record DiodePhysics =
  temp_k :: real
  vt :: real
  breakdown :: real
  slope :: real
  Is :: "real option"
  n :: "real option"

text \<open>
  \<^verbatim>\<open>DiodePhysics.__init__(self, material, temp_c, zener_v=5.1)\<close>. A call of the program
  is modelled with the result type \<open>py_error + 'a\<close>, \<open>Inl\<close> being a raised exception.
  The constructor has no \<^verbatim>\<open>raise\<close> and no \<^verbatim>\<open>else\<close> branch; its one raising path is the
  power \<^verbatim>\<open>2 ** x\<close> of the Si, Ge and Zener branches, where Python raises
  \<^verbatim>\<open>OverflowError\<close> once the result leaves the range of a double, that is for
  \<open>x \<ge> 1024\<close> (a temperature of \<open>10267\<close> degrees or more). The few arithmetic steps of
  the constructor are taken exact, a decimal literal standing for itself and
  \<^verbatim>\<open>2 ** x\<close> for \<open>2 powr x\<close>.
\<close>

definition DiodePhysics_init :: "string \<Rightarrow> real \<Rightarrow> real \<Rightarrow> py_error + DiodePhysics" where
  "DiodePhysics_init material temp_c zener_v =
    (let self = \<lparr>temp_k = temp_c + 27315 / 100,
                   vt = (BOLTZMANN_K * (temp_c + 27315 / 100)) / ELECTRON_Q,
                   breakdown = - 50,
                   slope = 10,
                   Is = None,
                   n = None\<rparr>
     in if material = ''Si'' then
          if 1024 \<le> (temp_c - 27) / 10
          then Inl (OverflowError ''Numerical result out of range'')
          else Inr (self\<lparr>Is := Some (1 / 10 ^ 12 * (2 powr ((temp_c - 27) / 10))),
                         n := Some (3 / 2),
                         breakdown := - 50\<rparr>)
        else if material = ''Ge'' then
          if 1024 \<le> (temp_c - 27) / 10
          then Inl (OverflowError ''Numerical result out of range'')
          else Inr (self\<lparr>Is := Some (1 / 10 ^ 6 * (2 powr ((temp_c - 27) / 10))),
                         n := Some 1,
                         breakdown := - 20\<rparr>)
        else if material = ''RedLED'' then
          Inr (self\<lparr>Is := Some (1 / 10 ^ 18),
                    n := Some 2,
                    breakdown := - 5\<rparr>)
        else if material = ''BlueLED'' then
          Inr (self\<lparr>Is := Some (1 / 10 ^ 24),
                    n := Some (7 / 2),
                    breakdown := - 5\<rparr>)
        else if material = ''Zener'' then
          if 1024 \<le> (temp_c - 27) / 10
          then Inl (OverflowError ''Numerical result out of range'')
          else Inr (self\<lparr>Is := Some (1 / 10 ^ 12 * (2 powr ((temp_c - 27) / 10))),
                         n := Some (3 / 2),
                         breakdown := - zener_v,
                         slope := 1 / 2\<rparr>)
        else Inr self)"

text \<open>
  Lines 46 to 49 of \<^verbatim>\<open>compute\<close> at one element of the voltage array: both branches are
  computed and \<^verbatim>\<open>np.where\<close> selects one. The absolute value and the comparison are
  exact; each other operation rounds.
\<close>

definition compute_elem ::
  "fpu \<Rightarrow> real \<Rightarrow> real \<Rightarrow> real \<Rightarrow> real \<Rightarrow> real \<Rightarrow> npfloat \<Rightarrow> npfloat" where
  "compute_elem F self_n self_vt self_Is self_slope self_breakdown v =
    (let exponent = np_clip (np_true_divide F v (np_mul F (Fin self_n) (Fin self_vt))) (- 50) 50;
         i_shockley = np_mul F (Fin self_Is) (np_sub F (np_exp F exponent) (Fin 1));
         i_breakdown = np_mul F (Fin (- self_slope))
                         (np_sub F (np_abs v) (np_abs (Fin self_breakdown)))
     in if np_lt v (Fin self_breakdown) then i_breakdown else i_shockley)"

text \<open>
  \<^verbatim>\<open>compute\<close> on a scalar (\<^verbatim>\<open>current.ndim == 0\<close>) and on an array. Reading \<^verbatim>\<open>self.n\<close>
  (line 46) or \<^verbatim>\<open>self.Is\<close> (line 47) on an instance without it raises
  \<^verbatim>\<open>AttributeError\<close>; \<^verbatim>\<open>self.n\<close> is read first.
\<close>

definition compute :: "fpu \<Rightarrow> DiodePhysics \<Rightarrow> real \<Rightarrow> py_error + npfloat" where
  "compute F self voltage =
    (case n self of
       None \<Rightarrow> Inl (AttributeError ''n'')
     | Some self_n \<Rightarrow>
        (case Is self of
           None \<Rightarrow> Inl (AttributeError ''Is'')
         | Some self_Is \<Rightarrow>
             Inr (compute_elem F self_n (vt self) self_Is (slope self) (breakdown self)
                    (Fin voltage))))"

definition compute_array :: "fpu \<Rightarrow> DiodePhysics \<Rightarrow> npfloat list \<Rightarrow> py_error + npfloat list" where
  "compute_array F self voltage =
    (case n self of
       None \<Rightarrow> Inl (AttributeError ''n'')
     | Some self_n \<Rightarrow>
        (case Is self of
           None \<Rightarrow> Inl (AttributeError ''Is'')
         | Some self_Is \<Rightarrow>
             Inr (map (compute_elem F self_n (vt self) self_Is (slope self) (breakdown self))
                    voltage)))"

section \<open>The routes\<close>

text \<open>
  The response of \<^verbatim>\<open>/api/measure\<close>, one field per key of the returned dictionary.
\<close>

record measure_response =
  m_voltage :: real
  m_current :: npfloat
  m_power :: npfloat
  m_status :: string
  m_saturation :: real
  m_breakdown :: real

text \<open>
  \<^verbatim>\<open>measure\<close>, from the decoded request fields on. The draw of
  \<^verbatim>\<open>np.random.uniform(-0.005, 0.005)\<close> is the parameter \<open>noise\<close>. The limit \<^verbatim>\<open>0.05\<close> is
  the double next to that decimal, \<^verbatim>\<open>0.5\<close> is a double. The dictionary reads
  \<^verbatim>\<open>sim.Is\<close> once more, after \<^verbatim>\<open>compute\<close> has returned.
\<close>

definition measure_route ::
  "fpu \<Rightarrow> string \<Rightarrow> real \<Rightarrow> real \<Rightarrow> real \<Rightarrow> py_error + measure_response" where
  "measure_route F mat temp v noise =
    (case DiodePhysics_init mat temp (51 / 10) of
       Inl e \<Rightarrow> Inl e
     | Inr sim \<Rightarrow>
        (case compute F sim v of
           Inl e \<Rightarrow> Inl e
         | Inr i \<Rightarrow>
            (let final_i = np_add F i (np_mul F i (Fin noise));
                 power = np_mul F (Fin v) final_i;
                 limit = (if mat \<in> set [''RedLED'', ''BlueLED''] then rnd F (5 / 100)
                          else Fin (1 / 2));
                 status = (if np_le (np_abs power) limit then ''OPTIMAL''
                           else ''BURNT (Overheat)'')
             in case Is sim of
                  None \<Rightarrow> Inl (AttributeError ''Is'')
                | Some sim_Is \<Rightarrow>
                    Inr \<lparr>m_voltage = v,
                         m_current = final_i,
                         m_power = power,
                         m_status = status,
                         m_saturation = sim_Is,
                         m_breakdown = breakdown sim\<rparr>)))"

text \<open>
  \<^verbatim>\<open>np.linspace(start, stop, num)\<close> with the default \<^verbatim>\<open>endpoint=True\<close>, as numpy
  computes it: \<open>delta = stop - start\<close>, \<open>step = delta / (num - 1)\<close>; element \<open>k\<close> is
  \<open>k * step + start\<close>, or \<open>(k / (num - 1)) * delta + start\<close> when the step is zero; the
  last element is then overwritten with \<open>stop\<close>.
\<close>

definition linspace :: "fpu \<Rightarrow> real \<Rightarrow> real \<Rightarrow> nat \<Rightarrow> npfloat list" where
  "linspace F start stop num =
    (let delta = np_sub F (Fin stop) (Fin start) in
     if num = 0 then []
     else if num = 1 then [np_add F (np_mul F (Fin 0) delta) (Fin start)]
     else
      (let step = np_true_divide F delta (Fin (real (num - 1)));
           y = (\<lambda>k. if step = Fin 0
                     then np_mul F (np_true_divide F (Fin (real k)) (Fin (real (num - 1)))) delta
                     else np_mul F (Fin (real k)) step)
       in (map (\<lambda>k. np_add F (y k) (Fin start)) [0..<num]) [num - 1 := Fin stop]))"

text \<open>
  \<^verbatim>\<open>ndarray.argmin()\<close> on a one-dimensional array of doubles: the index of the first
  minimum, and a nan counts as minimal (the scan stops at the first nan). numpy's loop
  keeps the running minimum \<open>mp\<close> and replaces it when \<^verbatim>\<open>!(*ip >= mp)\<close>. An empty array
  raises \<^verbatim>\<open>ValueError\<close>.
\<close>

fun argmin_loop :: "npfloat list \<Rightarrow> nat \<Rightarrow> npfloat \<Rightarrow> nat \<Rightarrow> nat" where
  "argmin_loop [] i mp min_ind = min_ind"
| "argmin_loop (x # xs) i mp min_ind =
    (if \<not> np_ge x mp then (if x = NaN then i else argmin_loop xs (Suc i) x i)
     else argmin_loop xs (Suc i) mp min_ind)"

definition np_argmin :: "npfloat list \<Rightarrow> py_error + nat" where
  "np_argmin a =
    (case a of
       [] \<Rightarrow> Inl (ValueError ''attempt to get argmin of an empty sequence'')
     | mp # rest \<Rightarrow> if mp = NaN then Inr 0 else Inr (argmin_loop rest 1 mp 0))"

text \<open>The response of \<^verbatim>\<open>/api/sweep\<close>: the keys \<^verbatim>\<open>v\<close>, \<^verbatim>\<open>i\<close>, \<^verbatim>\<open>p\<close> of an entry of
  \<^verbatim>\<open>data\<close>, the keys \<^verbatim>\<open>v\<close>, \<^verbatim>\<open>i\<close> of \<^verbatim>\<open>saddle\<close>, and the four keys of the response.\<close>

record sample =
  s_v :: npfloat
  s_i :: npfloat
  s_p :: npfloat

record saddle_point =
  sp_v :: npfloat
  sp_i :: npfloat

record sweep_response =
  sw_data :: "sample list"
  sw_saddle :: saddle_point
  sw_saturation :: real
  sw_breakdown :: real

text \<open>
  \<^verbatim>\<open>sweep\<close>, from the decoded request fields on. The thresholds \<^verbatim>\<open>0.001\<close> and
  \<^verbatim>\<open>0.0005\<close> are the doubles next to these decimals.
\<close>

definition sweep ::
  "fpu \<Rightarrow> string \<Rightarrow> real \<Rightarrow> real \<Rightarrow> real \<Rightarrow> py_error + sweep_response" where
  "sweep F mat start stop temp =
    (case DiodePhysics_init mat temp (51 / 10) of
       Inl e \<Rightarrow> Inl e
     | Inr sim \<Rightarrow>
        (let voltages = linspace F start stop 300 in
         case compute_array F sim voltages of
           Inl e \<Rightarrow> Inl e
         | Inr currents \<Rightarrow>
            (let powers = map2 (np_mul F) voltages currents;
                 results = map (\<lambda>(v, i, p). \<lparr>s_v = py_round F v 3, s_i = i, s_p = p\<rparr>)
                             (zip voltages (zip currents powers));
                 threshold = (if mat = ''Ge'' then rnd F (5 / 10000) else rnd F (1 / 1000))
             in case np_argmin (map (\<lambda>c. np_abs (np_sub F c threshold)) currents) of
                  Inl e \<Rightarrow> Inl e
                | Inr idx \<Rightarrow>
                   (case Is sim of
                      None \<Rightarrow> Inl (AttributeError ''Is'')
                    | Some sim_Is \<Rightarrow>
                        Inr \<lparr>sw_data = results,
                             sw_saddle = \<lparr>sp_v = py_round F (voltages ! idx) 3,
                                          sp_i = currents ! idx\<rparr>,
                             sw_saturation = sim_Is,
                             sw_breakdown = breakdown sim\<rparr>))))"

section \<open>Mystery mode\<close>

text \<open>
  The module-level variable \<^verbatim>\<open>current_mystery\<close>, \<open>None\<close> when the module is loaded.
\<close>

record globals =
  current_mystery :: "string option"

definition initial_globals :: globals where
  "initial_globals = \<lparr>current_mystery = None\<rparr>"

definition options :: "string list" where
  "options = [''Si'', ''Ge'', ''RedLED'', ''BlueLED'', ''Zener'']"

text \<open>
  \<^verbatim>\<open>random.choice(options)\<close> indexes \<open>options\<close> with a drawn number below its length;
  the draw is the parameter \<open>r\<close>.
\<close>

definition start_mystery :: "nat \<Rightarrow> globals \<Rightarrow> py_error + (string \<times> globals)" where
  "start_mystery r g =
    (if r < length options
     then Inr (''Mystery Mode Started'', g\<lparr>current_mystery := Some (options ! r)\<rparr>)
     else Inl (IndexError ''list index out of range''))"

record guess_response =
  g_result :: string
  g_actual :: "string option"

text \<open>
  \<^verbatim>\<open>submit_guess\<close>; \<open>user_guess\<close> is the value of \<^verbatim>\<open>request.json.get('guess')\<close>, \<open>None\<close>
  when the key is absent or null.
\<close>

definition submit_guess :: "string option \<Rightarrow> globals \<Rightarrow> py_error + (guess_response \<times> globals)" where
  "submit_guess user_guess g =
    (if user_guess = current_mystery g
     then Inr (\<lparr>g_result = ''CORRECT'', g_actual = current_mystery g\<rparr>, g)
     else Inr (\<lparr>g_result = ''WRONG'', g_actual = current_mystery g\<rparr>, g))"

section \<open>Parameters of an unrecognised material\<close>

lemma init_unrecognised:
  "material \<notin> set options \<Longrightarrow>
     DiodePhysics_init material temp_c zener_v =
       Inr \<lparr>temp_k = temp_c + 27315 / 100,
            vt = (BOLTZMANN_K * (temp_c + 27315 / 100)) / ELECTRON_Q,
            breakdown = - 50, slope = 10, Is = None, n = None\<rparr>"
  by (simp add: DiodePhysics_init_def options_def)

text \<open>
  Claim C4, as amended. The claim asks the constructor to fail with an InvalidMaterial
  error on a material outside the five. The constructor has no failing path: on such a
  material it returns an instance, whose \<open>temp_k\<close> and \<open>vt\<close> come from the temperature
  and whose \<open>breakdown\<close> and \<open>slope\<close> are the defaults \<open>-50\<close> and \<open>10\<close>.
\<close>

theorem init_unrecognised_returns:
  "material \<notin> set options \<Longrightarrow>
     \<exists>sim. DiodePhysics_init material temp_c zener_v = Inr sim
       \<and> temp_k sim = temp_c + 27315 / 100
       \<and> vt sim = (BOLTZMANN_K * temp_k sim) / ELECTRON_Q
       \<and> breakdown sim = - 50
       \<and> slope sim = 10"
  by (simp add: init_unrecognised)

theorem init_unrecognised_returns_witness:
  "''GaAs'' \<notin> set options
     \<and> (\<exists>sim. DiodePhysics_init ''GaAs'' 27 (51 / 10) = Inr sim
       \<and> temp_k sim = 27 + 27315 / 100
       \<and> vt sim = (BOLTZMANN_K * temp_k sim) / ELECTRON_Q
       \<and> breakdown sim = - 50
       \<and> slope sim = 10)"
proof -
  have h: "''GaAs'' \<notin> set options" by (simp add: options_def)
  show ?thesis using h init_unrecognised_returns [OF h, of 27 "51 / 10"] by simp
qed

text \<open>
  Claim C4 as stated fails: for the material \<open>GaAs\<close> the constructor returns an instance,
  it raises nothing.
\<close>

theorem init_invalid_material_counterexample:
  "DiodePhysics_init ''GaAs'' 27 (51 / 10) =
     Inr \<lparr>temp_k = 30015 / 100,
          vt = (BOLTZMANN_K * (30015 / 100)) / ELECTRON_Q,
          breakdown = - 50, slope = 10, Is = None, n = None\<rparr>"
  by (simp add: DiodePhysics_init_def)

text \<open>
  Claim C10. On a material outside the five the constructor assigns \<open>temp_k\<close>, \<open>vt\<close>,
  \<open>breakdown\<close> and \<open>slope\<close> only; \<open>Is\<close> and \<open>n\<close> stay unassigned, and every later call
  of \<open>compute\<close>, on a scalar or on an array, raises an AttributeError (for \<open>n\<close>, the
  attribute read first).
\<close>

theorem unrecognised_material_unusable:
  "material \<notin> set options \<Longrightarrow>
     \<exists>sim. DiodePhysics_init material temp_c zener_v = Inr sim
       \<and> temp_k sim = temp_c + 27315 / 100
       \<and> vt sim = (BOLTZMANN_K * (temp_c + 27315 / 100)) / ELECTRON_Q
       \<and> breakdown sim = - 50
       \<and> slope sim = 10
       \<and> Is sim = None
       \<and> n sim = None
       \<and> compute F sim voltage = Inl (AttributeError ''n'')
       \<and> compute_array F sim voltages = Inl (AttributeError ''n'')"
  by (simp add: init_unrecognised compute_def compute_array_def)

theorem unrecognised_material_unusable_witness:
  "''Copper'' \<notin> set options
     \<and> (\<exists>sim. DiodePhysics_init ''Copper'' 27 (51 / 10) = Inr sim
       \<and> Is sim = None
       \<and> n sim = None
       \<and> compute exact_fpu sim (7 / 10) = Inl (AttributeError ''n'')
       \<and> compute_array exact_fpu sim [Fin 0, Fin 1] = Inl (AttributeError ''n''))"
proof -
  have h: "''Copper'' \<notin> set options" by (simp add: options_def)
  show ?thesis
    using h unrecognised_material_unusable [OF h, of 27 "51 / 10" exact_fpu "7 / 10" "[Fin 0, Fin 1]"] by blast
qed

section \<open>Mystery mode: guesses\<close>

text \<open>
  Claim C8, as amended. Before any \<open>start_mystery\<close> the slot holds \<open>None\<close>, and
  \<open>submit_guess\<close> does not fail: it compares the guess with \<open>None\<close>, answers WRONG to
  every guess that is a string (CORRECT to an absent guess), reveals \<open>None\<close> as the
  actual material and leaves the slot as it is.
\<close>

theorem submit_guess_before_start:
  "submit_guess user_guess initial_globals =
     Inr (\<lparr>g_result = (if user_guess = None then ''CORRECT'' else ''WRONG''),
           g_actual = None\<rparr>, initial_globals)"
  by (simp add: submit_guess_def initial_globals_def)

text \<open>
  Claim C8 as stated fails: a guess of \<open>Si\<close> before any \<open>start_mystery\<close> returns a
  comparison result, not an error.
\<close>

theorem submit_guess_no_active_game_counterexample:
  "submit_guess (Some ''Si'') initial_globals =
     Inr (\<lparr>g_result = ''WRONG'', g_actual = None\<rparr>, initial_globals)"
  by (simp add: submit_guess_def initial_globals_def)

text \<open>
  Claim C9. With the material \<open>m\<close> stored in the slot, \<open>submit_guess\<close> answers CORRECT
  when the guess is \<open>m\<close> and WRONG otherwise, reveals \<open>m\<close> in both cases, and returns
  the globals unchanged.
\<close>

theorem submit_guess_stored:
  "current_mystery g = Some m \<Longrightarrow>
     submit_guess user_guess g =
       Inr (\<lparr>g_result = (if user_guess = Some m then ''CORRECT'' else ''WRONG''),
             g_actual = Some m\<rparr>, g)"
  by (simp add: submit_guess_def)

theorem submit_guess_stored_witness:
  "current_mystery \<lparr>current_mystery = Some ''Ge''\<rparr> = Some ''Ge''
     \<and> submit_guess (Some ''Si'') \<lparr>current_mystery = Some ''Ge''\<rparr> =
         Inr (\<lparr>g_result = ''WRONG'', g_actual = Some ''Ge''\<rparr>, \<lparr>current_mystery = Some ''Ge''\<rparr>)
     \<and> submit_guess (Some ''Ge'') \<lparr>current_mystery = Some ''Ge''\<rparr> =
         Inr (\<lparr>g_result = ''CORRECT'', g_actual = Some ''Ge''\<rparr>, \<lparr>current_mystery = Some ''Ge''\<rparr>)"
  using submit_guess_stored [of "\<lparr>current_mystery = Some ''Ge''\<rparr>" "''Ge''" "Some ''Si''"]
    submit_guess_stored [of "\<lparr>current_mystery = Some ''Ge''\<rparr>" "''Ge''" "Some ''Ge''"]
  by simp

section \<open>The current formula\<close>

lemma init_recognised_the:
  "material \<in> set options \<Longrightarrow> DiodePhysics_init material temp_c zener_v = Inr sim \<Longrightarrow>
     Is sim = Some (the (Is sim)) \<and> n sim = Some (the (n sim))
       \<and> 0 < the (Is sim) \<and> 0 < the (n sim) \<and> 0 < slope sim
       \<and> vt sim = (BOLTZMANN_K * (temp_c + 27315 / 100)) / ELECTRON_Q
       \<and> (material = ''Zener'' \<longrightarrow> breakdown sim = - zener_v)
       \<and> (material \<noteq> ''Zener'' \<longrightarrow> breakdown sim < 0)"
  by (auto simp: options_def DiodePhysics_init_def split: if_splits)

lemma init_recognised:
  assumes "material \<in> set options" and "DiodePhysics_init material temp_c zener_v = Inr sim"
  shows "\<exists>self_Is self_n. Is sim = Some self_Is \<and> n sim = Some self_n
       \<and> 0 < self_Is \<and> 0 < self_n \<and> 0 < slope sim
       \<and> vt sim = (BOLTZMANN_K * (temp_c + 27315 / 100)) / ELECTRON_Q
       \<and> (material = ''Zener'' \<longrightarrow> breakdown sim = - zener_v)
       \<and> (material \<noteq> ''Zener'' \<longrightarrow> breakdown sim < 0)"
  using init_recognised_the [OF assms] by blast

lemma init_returns:
  assumes "material \<in> set options"
    and "material \<in> set [''Si'', ''Ge'', ''Zener''] \<longrightarrow> (temp_c - 27) / 10 < 1024"
  shows "\<exists>sim. DiodePhysics_init material temp_c zener_v = Inr sim"
proof -
  from assms(1) consider "material = ''Si''" | "material = ''Ge''" | "material = ''RedLED''"
    | "material = ''BlueLED''" | "material = ''Zener''"
    by (auto simp: options_def)
  then show ?thesis
  proof cases
    case 1
    with assms(2) show ?thesis by (simp add: DiodePhysics_init_def)
  next
    case 2
    with assms(2) show ?thesis by (simp add: DiodePhysics_init_def)
  next
    case 3
    then show ?thesis by (simp add: DiodePhysics_init_def)
  next
    case 4
    then show ?thesis by (simp add: DiodePhysics_init_def)
  next
    case 5
    with assms(2) show ?thesis by (simp add: DiodePhysics_init_def)
  qed
qed

lemma init_overflow:
  assumes "material \<in> set [''Si'', ''Ge'', ''Zener'']" and "1024 \<le> (temp_c - 27) / 10"
  shows "DiodePhysics_init material temp_c zener_v =
    Inl (OverflowError ''Numerical result out of range'')"
proof -
  from assms(1) consider "material = ''Si''" | "material = ''Ge''" | "material = ''Zener''"
    by auto
  then show ?thesis
  proof cases
    case 1
    with assms(2) show ?thesis by (simp add: DiodePhysics_init_def)
  next
    case 2
    with assms(2) show ?thesis by (simp add: DiodePhysics_init_def)
  next
    case 3
    with assms(2) show ?thesis by (simp add: DiodePhysics_init_def)
  qed
qed

lemma vt_sign:
  "0 < (BOLTZMANN_K * t) / ELECTRON_Q \<longleftrightarrow> 0 < t"
  "(BOLTZMANN_K * t) / ELECTRON_Q = 0 \<longleftrightarrow> t = 0"
  by (simp_all add: BOLTZMANN_K_def ELECTRON_Q_def zero_less_mult_iff)

lemma compute_recognised:
  "Is sim = Some self_Is \<Longrightarrow> n sim = Some self_n \<Longrightarrow>
     compute F sim v =
       Inr (compute_elem F self_n (vt sim) self_Is (slope sim) (breakdown sim) (Fin v))"
  by (simp add: compute_def)





lemma init_Si_27:
  "DiodePhysics_init ''Si'' 27 (51 / 10) =
     Inr \<lparr>temp_k = 30015 / 100, vt = (BOLTZMANN_K * (30015 / 100)) / ELECTRON_Q,
          breakdown = - 50, slope = 10, Is = Some (1 / 10 ^ 12), n = Some (3 / 2)\<rparr>"
  by (simp add: DiodePhysics_init_def)

lemma init_RedLED_zero:
  "DiodePhysics_init ''RedLED'' (- (27315 / 100)) (51 / 10) =
     Inr \<lparr>temp_k = 0, vt = 0, breakdown = - 5, slope = 10, Is = Some (1 / 10 ^ 18), n = Some 2\<rparr>"
  by (simp add: DiodePhysics_init_def)



section \<open>The measurement\<close>

lemma measure_recognised:
  assumes "DiodePhysics_init mat temp (51 / 10) = Inr sim" "compute F sim v = Inr i"
    "Is sim = Some self_Is"
  shows "measure_route F mat temp v noise =
     Inr \<lparr>m_voltage = v,
          m_current = np_add F i (np_mul F i (Fin noise)),
          m_power = np_mul F (Fin v) (np_add F i (np_mul F i (Fin noise))),
          m_status = (if np_le (np_abs (np_mul F (Fin v) (np_add F i (np_mul F i (Fin noise)))))
                          (if mat = ''RedLED'' \<or> mat = ''BlueLED'' then rnd F (5 / 100)
                           else Fin (1 / 2))
                      then ''OPTIMAL'' else ''BURNT (Overheat)''),
          m_saturation = self_Is,
          m_breakdown = breakdown sim\<rparr>"
  using assms by (simp add: measure_route_def Let_def)

lemma measure_returns_cases:
  assumes "measure_route F mat temp v noise = Inr r"
  shows "\<exists>sim i self_Is. DiodePhysics_init mat temp (51 / 10) = Inr sim
    \<and> compute F sim v = Inr i \<and> Is sim = Some self_Is"
proof (cases "DiodePhysics_init mat temp (51 / 10)")
  case (Inl e)
  with assms show ?thesis by (simp add: measure_route_def)
next
  case (Inr sim)
  note s = this
  show ?thesis
  proof (cases "compute F sim v")
    case (Inl e)
    with assms s show ?thesis by (simp add: measure_route_def)
  next
    case (Inr i)
    note c = this
    show ?thesis
    proof (cases "Is sim")
      case None
      with assms s c show ?thesis by (simp add: measure_route_def Let_def)
    next
      case (Some a)
      with s c show ?thesis by blast
    qed
  qed
qed

text \<open>
  Claim C5. Whenever \<open>measure\<close> returns, the current is the computed current with the
  noise applied, the power is the voltage times that noisy current, and the status is
  OPTIMAL exactly when the absolute power is at most the limit (\<open>0.05\<close> for RedLED and
  BlueLED, \<open>0.5\<close> for every other material) and BURNT (Overheat) otherwise. The
  comparison is the IEEE one: a nan power is not at most the limit. A measurement of one
  of the five materials returns unless the constructor overflows (Si, Ge or Zener at
  \<open>10267\<close> degrees or more), and then it raises that OverflowError.
\<close>

theorem measure_status:
  "(\<forall>r. measure_route F mat temp v noise = Inr r \<longrightarrow>
        (\<exists>sim i. DiodePhysics_init mat temp (51 / 10) = Inr sim \<and> compute F sim v = Inr i
           \<and> m_current r = np_add F i (np_mul F i (Fin noise)))
        \<and> m_power r = np_mul F (Fin v) (m_current r)
        \<and> (m_status r = ''OPTIMAL'' \<longleftrightarrow>
             np_le (np_abs (m_power r))
               (if mat = ''RedLED'' \<or> mat = ''BlueLED'' then rnd F (5 / 100) else Fin (1 / 2)))
        \<and> (m_status r \<noteq> ''OPTIMAL'' \<longrightarrow> m_status r = ''BURNT (Overheat)''))
   \<and> (mat \<in> set options
        \<and> (mat \<in> set [''Si'', ''Ge'', ''Zener''] \<longrightarrow> (temp - 27) / 10 < 1024) \<longrightarrow>
        (\<exists>r. measure_route F mat temp v noise = Inr r))
   \<and> (mat \<in> set [''Si'', ''Ge'', ''Zener''] \<and> 1024 \<le> (temp - 27) / 10 \<longrightarrow>
        measure_route F mat temp v noise =
          Inl (OverflowError ''Numerical result out of range''))"
proof (intro conjI impI allI)
  assume "mat \<in> set options
        \<and> (mat \<in> set [''Si'', ''Ge'', ''Zener''] \<longrightarrow> (temp - 27) / 10 < 1024)"
  then have m: "mat \<in> set options"
    and t: "mat \<in> set [''Si'', ''Ge'', ''Zener''] \<longrightarrow> (temp - 27) / 10 < 1024" by blast+
  from init_returns [OF m t, of "51 / 10"]
  obtain sim where s: "DiodePhysics_init mat temp (51 / 10) = Inr sim" by blast
  from init_recognised [OF m s]
  obtain self_Is self_n where p: "Is sim = Some self_Is" "n sim = Some self_n" by blast
  from measure_recognised [OF s compute_recognised [OF p] p(1)]
  show "\<exists>r. measure_route F mat temp v noise = Inr r" by blast
next
  assume "mat \<in> set [''Si'', ''Ge'', ''Zener''] \<and> 1024 \<le> (temp - 27) / 10"
  then have "DiodePhysics_init mat temp (51 / 10) =
      Inl (OverflowError ''Numerical result out of range'')"
    using init_overflow by blast
  then show "measure_route F mat temp v noise =
      Inl (OverflowError ''Numerical result out of range'')"
    by (simp add: measure_route_def)
next
  fix r assume r: "measure_route F mat temp v noise = Inr r"
  from measure_returns_cases [OF r] obtain sim i self_Is where
    s: "DiodePhysics_init mat temp (51 / 10) = Inr sim" "compute F sim v = Inr i"
      "Is sim = Some self_Is" by blast
  note eq = measure_recognised [OF s, of noise]
  from r eq have req: "r = \<lparr>m_voltage = v,
          m_current = np_add F i (np_mul F i (Fin noise)),
          m_power = np_mul F (Fin v) (np_add F i (np_mul F i (Fin noise))),
          m_status = (if np_le (np_abs (np_mul F (Fin v) (np_add F i (np_mul F i (Fin noise)))))
                          (if mat = ''RedLED'' \<or> mat = ''BlueLED'' then rnd F (5 / 100)
                           else Fin (1 / 2))
                      then ''OPTIMAL'' else ''BURNT (Overheat)''),
          m_saturation = self_Is,
          m_breakdown = breakdown sim\<rparr>" by simp
  show "\<exists>sim i. DiodePhysics_init mat temp (51 / 10) = Inr sim \<and> compute F sim v = Inr i
           \<and> m_current r = np_add F i (np_mul F i (Fin noise))"
    using s req by auto
  show "m_power r = np_mul F (Fin v) (m_current r)" by (simp add: req)
  show "m_status r = ''OPTIMAL'' \<longleftrightarrow>
             np_le (np_abs (m_power r))
               (if mat = ''RedLED'' \<or> mat = ''BlueLED'' then rnd F (5 / 100) else Fin (1 / 2))"
    by (cases "mat = ''RedLED'' \<or> mat = ''BlueLED''") (simp_all add: req)
  show "m_status r = ''BURNT (Overheat)''" if "m_status r \<noteq> ''OPTIMAL''"
    using that by (auto simp: req split: if_splits)
qed

lemma init_Zener_27:
  "DiodePhysics_init ''Zener'' 27 (51 / 10) =
     Inr \<lparr>temp_k = 30015 / 100, vt = (BOLTZMANN_K * (30015 / 100)) / ELECTRON_Q,
          breakdown = - (51 / 10), slope = 1 / 2, Is = Some (1 / 10 ^ 12), n = Some (3 / 2)\<rparr>"
  by (simp add: DiodePhysics_init_def)

theorem measure_status_witness:
  "''Zener'' \<in> set options \<and> ((27 :: real) - 27) / 10 < 1024
   \<and> (\<exists>r. measure_route exact_fpu ''Zener'' 27 (- 6) 0 = Inr r
        \<and> m_current r = Fin (- (45 / 100)) \<and> m_power r = Fin (27 / 10)
        \<and> m_status r = ''BURNT (Overheat)'')
   \<and> ''Zener'' \<in> set [''Si'', ''Ge'', ''Zener''] \<and> (1024 :: real) \<le> (10267 - 27) / 10
   \<and> measure_route exact_fpu ''Zener'' 10267 (- 6) 0 =
        Inl (OverflowError ''Numerical result out of range'')"
proof -
  let ?sim = "\<lparr>temp_k = 30015 / 100, vt = (BOLTZMANN_K * (30015 / 100)) / ELECTRON_Q,
          breakdown = - (51 / 10), slope = 1 / 2, Is = Some (1 / 10 ^ 12), n = Some (3 / 2)\<rparr>"
  have h: "''Zener'' \<in> set options" "((27 :: real) - 27) / 10 < 1024"
    by (simp_all add: options_def)
  have c: "compute exact_fpu ?sim (- 6) = Inr (Fin (- (45 / 100)))"
    by (simp add: compute_def compute_elem_def exact_fpu_def np_sub_def)
  note t = measure_status [of exact_fpu "''Zener''" 27 "- 6" 0]
  from t h obtain r where r: "measure_route exact_fpu ''Zener'' 27 (- 6) 0 = Inr r" by blast
  from t r obtain sim i where si: "DiodePhysics_init ''Zener'' 27 (51 / 10) = Inr sim"
    "compute exact_fpu sim (- 6) = Inr i"
    "m_current r = np_add exact_fpu i (np_mul exact_fpu i (Fin 0))" by blast
  from si(1) have "sim = ?sim" unfolding init_Zener_27 by simp
  with si(2) c have "i = Fin (- (45 / 100))" by simp
  with si(3) have cur: "m_current r = Fin (- (45 / 100))" by (simp add: exact_fpu_def)
  from t r have "m_power r = np_mul exact_fpu (Fin (- 6)) (m_current r)" by blast
  with cur have pw: "m_power r = Fin (27 / 10)" by (simp add: exact_fpu_def)
  from t r have "m_status r = ''OPTIMAL'' \<longleftrightarrow>
      np_le (np_abs (m_power r))
        (if ''Zener'' = ''RedLED'' \<or> ''Zener'' = ''BlueLED'' then rnd exact_fpu (5 / 100)
         else Fin (1 / 2))"
    by blast
  with pw have "m_status r \<noteq> ''OPTIMAL''" by simp
  with t r have st: "m_status r = ''BURNT (Overheat)''" by blast
  have o: "''Zener'' \<in> set [''Si'', ''Ge'', ''Zener'']" "(1024 :: real) \<le> (10267 - 27) / 10"
    by simp_all
  with measure_status [of exact_fpu "''Zener''" 10267 "- 6" 0]
  have ov: "measure_route exact_fpu ''Zener'' 10267 (- 6) 0 =
        Inl (OverflowError ''Numerical result out of range'')" by blast
  from h r cur pw st o ov show ?thesis by blast
qed

section \<open>The order of doubles and monotone arithmetic\<close>

lemma np_lt_irrefl: "\<not> np_lt a a"
  by (cases a) auto

lemma np_not_le_imp_lt: "a \<noteq> NaN \<Longrightarrow> b \<noteq> NaN \<Longrightarrow> \<not> np_le a b \<Longrightarrow> np_lt b a"
  by (cases a; cases b) auto

lemma np_not_lt_imp_le: "a \<noteq> NaN \<Longrightarrow> b \<noteq> NaN \<Longrightarrow> \<not> np_lt a b \<Longrightarrow> np_le b a"
  by (cases a; cases b) auto

lemma np_lt_trans: "np_lt a b \<Longrightarrow> np_lt b c \<Longrightarrow> np_lt a c"
  by (cases a; cases b; cases c) auto

lemma np_le_lt_trans: "np_le a b \<Longrightarrow> np_lt b c \<Longrightarrow> np_lt a c"
  by (cases a; cases b; cases c) auto

lemma np_le_trans: "np_le a b \<Longrightarrow> np_le b c \<Longrightarrow> np_le a c"
  by (cases a; cases b; cases c) auto

lemma np_le_not_lt: "np_le a b \<Longrightarrow> \<not> np_lt b a"
  by (cases a; cases b) auto

lemma np_lt_NaN: "\<not> np_lt a NaN" "\<not> np_le a NaN"
  by (cases a; simp)+

lemma np_le_NaN_left: "np_le a b \<Longrightarrow> a \<noteq> NaN \<and> b \<noteq> NaN"
  by (cases a; cases b) auto

lemma np_le_refl: "a \<noteq> NaN \<Longrightarrow> np_le a a"
  by (cases a) auto

lemma np_le_Fin0_cases:
  assumes "np_le (Fin 0) d"
  obtains y where "d = Fin y" "0 \<le> y" | "d = PInf"
  using assms by (cases d) auto

lemma rnd_not_NaN:
  assumes "\<forall>x y. x \<le> y \<longrightarrow> np_le (rnd F x) (rnd F y)"
  shows "rnd F x \<noteq> NaN"
proof -
  from assms have "np_le (rnd F x) (rnd F x)" by simp
  then show ?thesis by (rule np_le_NaN_left [THEN conjunct1])
qed

lemma np_add_mono:
  assumes "\<forall>x y. x \<le> y \<longrightarrow> np_le (rnd F x) (rnd F y)" and "np_le a b"
  shows "np_le (np_add F a (Fin c)) (np_add F b (Fin c))"
proof -
  have n: "rnd F z \<noteq> NaN" for z using assms(1) by (rule rnd_not_NaN)
  have t: "np_le (rnd F z) PInf" "np_le NInf (rnd F z)" for z
    using n [of z] by (cases "rnd F z"; simp)+
  from assms show ?thesis by (cases a; cases b) (simp_all add: t)
qed

lemma np_mul_mono_left:
  assumes "\<forall>x y. x \<le> y \<longrightarrow> np_le (rnd F x) (rnd F y)" and "0 < c" and "np_le a b"
  shows "np_le (np_mul F (Fin c) a) (np_mul F (Fin c) b)"
proof -
  have n: "rnd F z \<noteq> NaN" for z using assms(1) by (rule rnd_not_NaN)
  have t: "np_le (rnd F z) PInf" "np_le NInf (rnd F z)" for z
    using n [of z] by (cases "rnd F z"; simp)+
  from assms show ?thesis by (cases a; cases b) (simp_all add: t inf_of_sign_def)
qed

lemma np_clip_mono:
  assumes "lo \<le> hi" and "np_le a b"
  shows "np_le (np_clip a lo hi) (np_clip b lo hi)"
  using assms by (cases a; cases b) (auto simp: min_def max_def)

lemma np_clip_Fin:
  assumes "a \<noteq> NaN" and "lo \<le> hi"
  shows "\<exists>x. np_clip a lo hi = Fin x \<and> lo \<le> x \<and> x \<le> hi"
  using assms by (cases a) auto

lemma rint_mono:
  assumes "x \<le> y"
  shows "rint x \<le> rint y"
proof -
  have bx: "\<lfloor>x\<rfloor> \<le> rint x" "rint x \<le> \<lfloor>x\<rfloor> + 1" by (simp_all add: rint_def Let_def)
  have b_y: "\<lfloor>y\<rfloor> \<le> rint y" "rint y \<le> \<lfloor>y\<rfloor> + 1" by (simp_all add: rint_def Let_def)
  from assms have "\<lfloor>x\<rfloor> \<le> \<lfloor>y\<rfloor>" by (rule floor_mono)
  then consider "\<lfloor>x\<rfloor> < \<lfloor>y\<rfloor>" | "\<lfloor>x\<rfloor> = \<lfloor>y\<rfloor>" by linarith
  then show ?thesis
  proof cases
    case 1
    with bx b_y show ?thesis by linarith
  next
    case 2
    with assms show ?thesis by (auto simp: rint_def Let_def)
  qed
qed

lemma py_round_mono:
  assumes "\<forall>x y. x \<le> y \<longrightarrow> np_le (fround F x ndigits) (fround F y ndigits)"
    and "np_le a b"
  shows "np_le (py_round F a ndigits) (py_round F b ndigits)"
proof -
  have n: "fround F z ndigits \<noteq> NaN" for z
  proof -
    from assms(1) have "np_le (fround F z ndigits) (fround F z ndigits)" by simp
    then show ?thesis by (rule np_le_NaN_left [THEN conjunct1])
  qed
  have t: "np_le (fround F z ndigits) PInf" "np_le NInf (fround F z ndigits)" for z
    using n [of z] by (cases "fround F z ndigits"; simp)+
  from assms show ?thesis by (cases a; cases b) (simp_all add: t)
qed

section \<open>Monotonicity in the forward region\<close>


lemma compute_elem_shockley:
  "\<not> v < self_breakdown \<Longrightarrow>
     compute_elem F self_n self_vt self_Is self_slope self_breakdown (Fin v) =
       np_mul F (Fin self_Is)
         (np_sub F (np_exp F (np_clip
            (np_true_divide F (Fin v) (rnd F (self_n * self_vt))) (- 50) 50)) (Fin 1))"
  by (simp add: compute_elem_def)

lemma quotient_mono:
  assumes mono: "\<forall>x y. x \<le> y \<longrightarrow> np_le (rnd F x) (rnd F y)"
    and zero: "rnd F 0 = Fin 0"
    and d: "0 \<le> d" and v: "0 < v1" "v1 \<le> v2"
  shows "np_le (np_true_divide F (Fin v1) (rnd F d)) (np_true_divide F (Fin v2) (rnd F d))"
proof -
  from mono d have "np_le (rnd F 0) (rnd F d)" by blast
  with zero have "np_le (Fin 0) (rnd F d)" by simp
  then show ?thesis
  proof (cases rule: np_le_Fin0_cases)
    case (1 y)
    show ?thesis
    proof (cases "y = 0")
      case True
      with 1 v show ?thesis by (simp add: inf_of_sign_def)
    next
      case False
      with 1 have "0 < y" by simp
      with v have "v1 / y \<le> v2 / y" by (simp add: divide_right_mono)
      with mono have "np_le (rnd F (v1 / y)) (rnd F (v2 / y))" by blast
      with 1 False show ?thesis by simp
    qed
  next
    case 2
    then show ?thesis by simp
  qed
qed

lemma shockley_mono:
  assumes mono: "\<forall>x y. x \<le> y \<longrightarrow> np_le (rnd F x) (rnd F y)"
    and emono: "\<forall>x y. x \<le> y \<longrightarrow> np_le (fexp F x) (fexp F y)"
    and c: "0 < c" and q: "np_le q1 q2"
  shows "np_le (np_mul F (Fin c) (np_sub F (np_exp F (np_clip q1 (- 50) 50)) (Fin 1)))
               (np_mul F (Fin c) (np_sub F (np_exp F (np_clip q2 (- 50) 50)) (Fin 1)))"
proof -
  from q have nn: "q1 \<noteq> NaN" "q2 \<noteq> NaN" using np_le_NaN_left by blast+
  from np_clip_Fin [OF nn(1), of "- 50" 50] obtain x1 where x1: "np_clip q1 (- 50) 50 = Fin x1"
    by auto
  from np_clip_Fin [OF nn(2), of "- 50" 50] obtain x2 where x2: "np_clip q2 (- 50) 50 = Fin x2"
    by auto
  from np_clip_mono [OF _ q, of "- 50" 50] x1 x2 have "x1 \<le> x2" by simp
  with emono have "np_le (fexp F x1) (fexp F x2)" by blast
  then have "np_le (np_exp F (np_clip q1 (- 50) 50)) (np_exp F (np_clip q2 (- 50) 50))"
    by (simp add: x1 x2)
  from np_add_mono [OF mono this, of "- 1"]
  have "np_le (np_sub F (np_exp F (np_clip q1 (- 50) 50)) (Fin 1))
              (np_sub F (np_exp F (np_clip q2 (- 50) 50)) (Fin 1))"
    by (simp add: np_sub_def)
  from np_mul_mono_left [OF mono c this] show ?thesis .
qed

text \<open>
  Claim C7, as amended. For Si, Ge, RedLED and BlueLED and every temperature from
  \<open>-273.15\<close> degrees Celsius up at which the constructor returns (below \<open>10267\<close> degrees
  for Si and Ge), \<open>compute\<close> is monotonically non-decreasing over the forward region:
  for \<open>0 < v1 \<le> v2\<close> the current at \<open>v1\<close> is at most the current at \<open>v2\<close>, and neither
  is nan. This holds in double arithmetic with a monotone rounding that keeps \<open>0\<close> and a
  monotone exponential.
\<close>

theorem compute_forward_monotone:
  assumes "material \<in> set [''Si'', ''Ge'', ''RedLED'', ''BlueLED'']"
    and "- (27315 / 100) \<le> temp_c"
    and "material \<in> set [''Si'', ''Ge''] \<longrightarrow> (temp_c - 27) / 10 < 1024"
    and "0 < v1" and "v1 \<le> v2"
    and "\<forall>x y. x \<le> y \<longrightarrow> np_le (rnd F x) (rnd F y)"
    and "rnd F 0 = Fin 0"
    and "\<forall>x y. x \<le> y \<longrightarrow> np_le (fexp F x) (fexp F y)"
  shows "\<exists>sim a b. DiodePhysics_init material temp_c zener_v = Inr sim
           \<and> compute F sim v1 = Inr a \<and> compute F sim v2 = Inr b \<and> np_le a b"
proof -
  from assms(1) have m: "material \<in> set options" and nz: "material \<noteq> ''Zener''"
    by (auto simp: options_def)
  from assms(1,3) have "material \<in> set [''Si'', ''Ge'', ''Zener''] \<longrightarrow> (temp_c - 27) / 10 < 1024"
    by auto
  from init_returns [OF m this, of zener_v]
  obtain sim where i: "DiodePhysics_init material temp_c zener_v = Inr sim" by blast
  from init_recognised [OF m i] nz
  obtain self_Is self_n where
    a: "Is sim = Some self_Is" "n sim = Some self_n"
    and pos: "0 < self_Is" "0 < self_n"
    and v: "vt sim = (BOLTZMANN_K * (temp_c + 27315 / 100)) / ELECTRON_Q"
    and bd: "breakdown sim < 0"
    by blast
  note c = compute_recognised [OF a]
  from assms(4,5) bd have nb: "\<not> v1 < breakdown sim" "\<not> v2 < breakdown sim" by auto
  have "0 \<le> vt sim"
  proof (cases "temp_c = - (27315 / 100)")
    case True
    with v show ?thesis by simp
  next
    case False
    with assms(2) have "0 < temp_c + 27315 / 100" by simp
    with v vt_sign(1) [of "temp_c + 27315 / 100"] show ?thesis by simp
  qed
  with pos(2) have d: "0 \<le> self_n * vt sim" by simp
  from quotient_mono [OF assms(6,7) d assms(4,5)]
  have q: "np_le (np_true_divide F (Fin v1) (rnd F (self_n * vt sim)))
                 (np_true_divide F (Fin v2) (rnd F (self_n * vt sim)))" .
  from shockley_mono [OF assms(6,8) pos(1) q] nb
  have "np_le (compute_elem F self_n (vt sim) self_Is (slope sim) (breakdown sim) (Fin v1))
              (compute_elem F self_n (vt sim) self_Is (slope sim) (breakdown sim) (Fin v2))"
    by (simp add: compute_elem_shockley)
  with i c show ?thesis by simp
qed

lemma exact_fpu_mono:
  "\<forall>x y. x \<le> y \<longrightarrow> np_le (rnd exact_fpu x) (rnd exact_fpu y)"
  "rnd exact_fpu 0 = Fin 0"
  "\<forall>x y. x \<le> y \<longrightarrow> np_le (fexp exact_fpu x) (fexp exact_fpu y)"
  by (simp_all add: exact_fpu_def)

lemma exact_fpu_round_mono:
  "\<forall>x y. x \<le> y \<longrightarrow> np_le (fround exact_fpu x 3) (fround exact_fpu y 3)"
proof (intro allI impI)
  fix x y :: real assume "x \<le> y"
  then have "x * 10 ^ 3 \<le> y * 10 ^ 3" by simp
  then have "rint (x * 10 ^ 3) \<le> rint (y * 10 ^ 3)" by (rule rint_mono)
  then show "np_le (fround exact_fpu x 3) (fround exact_fpu y 3)"
    by (simp add: exact_fpu_def divide_right_mono)
qed

theorem compute_forward_monotone_witness:
  "''Si'' \<in> set [''Si'', ''Ge'', ''RedLED'', ''BlueLED'']
   \<and> - (27315 / 100) \<le> (27 :: real)
   \<and> ((27 :: real) - 27) / 10 < 1024
   \<and> (0 :: real) < 6 / 10 \<and> (6 / 10 :: real) \<le> 7 / 10
   \<and> rnd exact_fpu 0 = Fin 0
   \<and> (\<exists>sim a b. DiodePhysics_init ''Si'' 27 (51 / 10) = Inr sim
           \<and> compute exact_fpu sim (6 / 10) = Inr a \<and> compute exact_fpu sim (7 / 10) = Inr b
           \<and> np_le a b)"
proof -
  have h: "''Si'' \<in> set [''Si'', ''Ge'', ''RedLED'', ''BlueLED'']"
    "- (27315 / 100) \<le> (27 :: real)"
    "''Si'' \<in> set [''Si'', ''Ge''] \<longrightarrow> ((27 :: real) - 27) / 10 < 1024"
    "(0 :: real) < 6 / 10" "(6 / 10 :: real) \<le> 7 / 10"
    by simp_all
  have t: "((27 :: real) - 27) / 10 < 1024" by simp
  from compute_forward_monotone [OF h exact_fpu_mono, of "51 / 10"] h(1,2,4,5) t
    exact_fpu_mono(2)
  show ?thesis by blast
qed

lemma compute_exact_shockley:
  assumes "\<not> v < self_breakdown" and "self_n * self_vt \<noteq> 0"
  shows "compute exact_fpu \<lparr>temp_k = t, vt = self_vt, breakdown = self_breakdown,
            slope = self_slope, Is = Some self_Is, n = Some self_n\<rparr> v
       = Inr (Fin (self_Is * (exp (min (max (v / (self_n * self_vt)) (- 50)) 50) - 1)))"
  using assms by (simp add: compute_def compute_elem_def exact_fpu_def np_sub_def)

lemma init_RedLED_cold:
  "DiodePhysics_init ''RedLED'' (- 300) (51 / 10) =
     Inr \<lparr>temp_k = - (2685 / 100), vt = (BOLTZMANN_K * (- (2685 / 100))) / ELECTRON_Q,
          breakdown = - 5, slope = 10, Is = Some (1 / 10 ^ 18), n = Some 2\<rparr>"
  by (simp add: DiodePhysics_init_def)

text \<open>
  Claim C7 as stated (every temperature) fails. The constructor accepts a temperature
  below \<open>-273.15\<close>; then \<open>vt\<close> is negative, the exponent falls as the voltage rises,
  and so does the current: for RedLED at \<open>-300\<close> degrees the current at \<open>0.2\<close> V is
  strictly below the current at \<open>0.1\<close> V.
\<close>

theorem compute_forward_monotone_counterexample:
  "DiodePhysics_init ''RedLED'' (- 300) (51 / 10) =
     Inr \<lparr>temp_k = - (2685 / 100), vt = (BOLTZMANN_K * (- (2685 / 100))) / ELECTRON_Q,
          breakdown = - 5, slope = 10, Is = Some (1 / 10 ^ 18), n = Some 2\<rparr>
   \<and> compute exact_fpu
        \<lparr>temp_k = - (2685 / 100), vt = (BOLTZMANN_K * (- (2685 / 100))) / ELECTRON_Q,
          breakdown = - 5, slope = 10, Is = Some (1 / 10 ^ 18), n = Some 2\<rparr> (1 / 10)
       = Inr (Fin (1 / 10 ^ 18 * (exp ((1 / 10) / (2 * ((BOLTZMANN_K * (- (2685 / 100))) / ELECTRON_Q))) - 1)))
   \<and> compute exact_fpu
        \<lparr>temp_k = - (2685 / 100), vt = (BOLTZMANN_K * (- (2685 / 100))) / ELECTRON_Q,
          breakdown = - 5, slope = 10, Is = Some (1 / 10 ^ 18), n = Some 2\<rparr> (2 / 10)
       = Inr (Fin (1 / 10 ^ 18 * (exp ((2 / 10) / (2 * ((BOLTZMANN_K * (- (2685 / 100))) / ELECTRON_Q))) - 1)))
   \<and> (0 :: real) < 1 / 10 \<and> (1 / 10 :: real) \<le> 2 / 10
   \<and> 1 / 10 ^ 18 * (exp ((2 / 10) / (2 * ((BOLTZMANN_K * (- (2685 / 100))) / ELECTRON_Q))) - 1)
     < (1 / 10 ^ 18 * (exp ((1 / 10) / (2 * ((BOLTZMANN_K * (- (2685 / 100))) / ELECTRON_Q))) - 1) :: real)"
proof -
  let ?vt = "(BOLTZMANN_K * (- (2685 / 100))) / ELECTRON_Q"
  let ?d = "2 * ?vt"
  have d: "?d \<noteq> 0" by (simp add: BOLTZMANN_K_def ELECTRON_Q_def)
  have e1: "min (max ((1 / 10) / ?d) (- 50)) 50 = (1 / 10) / ?d"
    by (simp add: BOLTZMANN_K_def ELECTRON_Q_def)
  have e2: "min (max ((2 / 10) / ?d) (- 50)) 50 = (2 / 10) / ?d"
    by (simp add: BOLTZMANN_K_def ELECTRON_Q_def)
  have lt: "(2 / 10) / ?d < (1 / 10) / ?d"
    by (simp add: BOLTZMANN_K_def ELECTRON_Q_def)
  have c1: "compute exact_fpu \<lparr>temp_k = - (2685 / 100), vt = ?vt,
          breakdown = - 5, slope = 10, Is = Some (1 / 10 ^ 18), n = Some 2\<rparr> (1 / 10)
       = Inr (Fin (1 / 10 ^ 18 * (exp ((1 / 10) / ?d) - 1)))"
    using compute_exact_shockley [of "1 / 10" "- 5" 2 ?vt "- (2685 / 100)" 10 "1 / 10 ^ 18"] d
    unfolding e1 by simp
  have c2: "compute exact_fpu \<lparr>temp_k = - (2685 / 100), vt = ?vt,
          breakdown = - 5, slope = 10, Is = Some (1 / 10 ^ 18), n = Some 2\<rparr> (2 / 10)
       = Inr (Fin (1 / 10 ^ 18 * (exp ((2 / 10) / ?d) - 1)))"
    using compute_exact_shockley [of "2 / 10" "- 5" 2 ?vt "- (2685 / 100)" 10 "1 / 10 ^ 18"] d
    unfolding e2 by simp
  from lt have "exp ((2 / 10) / ?d) < exp ((1 / 10) / ?d)" by (simp only: exp_less_cancel_iff)
  then have "1 / 10 ^ 18 * (exp ((2 / 10) / ?d) - 1) < (1 / 10 ^ 18 * (exp ((1 / 10) / ?d) - 1) :: real)"
    by simp
  with init_RedLED_cold c1 c2 show ?thesis by simp
qed

section \<open>The breakdown boundary\<close>








section \<open>The first minimum of an array\<close>

lemma argmin_loop_spec:
  assumes "length pre = i" "min_ind < i" "pre ! min_ind = mp" "mp \<noteq> NaN"
    and "\<forall>j<i. \<not> np_lt (pre ! j) mp" and "\<forall>j<min_ind. \<not> np_le (pre ! j) mp"
  shows "argmin_loop xs i mp min_ind < length (pre @ xs)
    \<and> (\<forall>j<length (pre @ xs). \<not> np_lt ((pre @ xs) ! j) ((pre @ xs) ! argmin_loop xs i mp min_ind))
    \<and> (\<forall>j<argmin_loop xs i mp min_ind.
          \<not> np_le ((pre @ xs) ! j) ((pre @ xs) ! argmin_loop xs i mp min_ind))"
  using assms
proof (induction xs arbitrary: pre i mp min_ind)
  case Nil
  then show ?case by simp
next
  case (Cons x xs)
  show ?case
  proof (cases "np_ge x mp")
    case True
    have inv: "\<forall>j<Suc i. \<not> np_lt ((pre @ [x]) ! j) mp"
    proof (intro allI impI)
      fix j assume "j < Suc i"
      show "\<not> np_lt ((pre @ [x]) ! j) mp"
      proof (cases "j < i")
        case True
        with Cons.prems(1,5) show ?thesis by (simp add: nth_append)
      next
        case False
        with \<open>j < Suc i\<close> have "j = i" by simp
        with Cons.prems(1) \<open>np_ge x mp\<close> show ?thesis
          by (simp add: nth_append np_ge_def np_le_not_lt)
      qed
    qed
    have "argmin_loop xs (Suc i) mp min_ind < length ((pre @ [x]) @ xs)
      \<and> (\<forall>j<length ((pre @ [x]) @ xs).
            \<not> np_lt (((pre @ [x]) @ xs) ! j) (((pre @ [x]) @ xs) ! argmin_loop xs (Suc i) mp min_ind))
      \<and> (\<forall>j<argmin_loop xs (Suc i) mp min_ind.
            \<not> np_le (((pre @ [x]) @ xs) ! j) (((pre @ [x]) @ xs) ! argmin_loop xs (Suc i) mp min_ind))"
    proof (rule Cons.IH)
      show "length (pre @ [x]) = Suc i" using Cons.prems(1) by simp
      show "min_ind < Suc i" using Cons.prems(2) by simp
      show "(pre @ [x]) ! min_ind = mp" using Cons.prems(1,2,3) by (simp add: nth_append)
      show "mp \<noteq> NaN" by (rule Cons.prems(4))
      show "\<forall>j<Suc i. \<not> np_lt ((pre @ [x]) ! j) mp" by (rule inv)
      show "\<forall>j<min_ind. \<not> np_le ((pre @ [x]) ! j) mp"
        using Cons.prems(1,2,6) by (simp add: nth_append)
    qed
    with True show ?thesis by simp
  next
    case False
    show ?thesis
    proof (cases "x = NaN")
      case True
      with False Cons.prems(1) show ?thesis
        by (simp add: nth_append np_lt_NaN)
    next
      case xn: False
      from False have "\<not> np_le mp x" by (simp add: np_ge_def)
      with Cons.prems(4) xn have lt: "np_lt x mp" by (simp add: np_not_le_imp_lt)
      have inv1: "\<forall>j<Suc i. \<not> np_lt ((pre @ [x]) ! j) x"
      proof (intro allI impI)
        fix j assume "j < Suc i"
        show "\<not> np_lt ((pre @ [x]) ! j) x"
        proof (cases "j < i")
          case True
          with Cons.prems(5) have "\<not> np_lt (pre ! j) mp" by simp
          with lt have "\<not> np_lt (pre ! j) x" using np_lt_trans by blast
          with True Cons.prems(1) show ?thesis by (simp add: nth_append)
        next
          case False
          with \<open>j < Suc i\<close> have "j = i" by simp
          with Cons.prems(1) show ?thesis by (simp add: nth_append np_lt_irrefl)
        qed
      qed
      have inv2: "\<forall>j<i. \<not> np_le ((pre @ [x]) ! j) x"
      proof (intro allI impI)
        fix j assume j: "j < i"
        with Cons.prems(5) have "\<not> np_lt (pre ! j) mp" by simp
        with lt have "\<not> np_le (pre ! j) x" using np_le_lt_trans by blast
        with j Cons.prems(1) show "\<not> np_le ((pre @ [x]) ! j) x" by (simp add: nth_append)
      qed
      have "argmin_loop xs (Suc i) x i < length ((pre @ [x]) @ xs)
        \<and> (\<forall>j<length ((pre @ [x]) @ xs).
              \<not> np_lt (((pre @ [x]) @ xs) ! j) (((pre @ [x]) @ xs) ! argmin_loop xs (Suc i) x i))
        \<and> (\<forall>j<argmin_loop xs (Suc i) x i.
              \<not> np_le (((pre @ [x]) @ xs) ! j) (((pre @ [x]) @ xs) ! argmin_loop xs (Suc i) x i))"
      proof (rule Cons.IH)
        show "length (pre @ [x]) = Suc i" using Cons.prems(1) by simp
        show "i < Suc i" by simp
        show "(pre @ [x]) ! i = x" using Cons.prems(1) by (simp add: nth_append)
        show "x \<noteq> NaN" by (rule xn)
        show "\<forall>j<Suc i. \<not> np_lt ((pre @ [x]) ! j) x" by (rule inv1)
        show "\<forall>j<i. \<not> np_le ((pre @ [x]) ! j) x" by (rule inv2)
      qed
      with False xn show ?thesis by simp
    qed
  qed
qed

lemma argmin_loop_nan:
  assumes "length pre = i" and "\<forall>j<i. pre ! j \<noteq> NaN"
    and "\<exists>j<length (pre @ xs). (pre @ xs) ! j = NaN"
  shows "(pre @ xs) ! argmin_loop xs i mp min_ind = NaN
    \<and> (\<forall>j<argmin_loop xs i mp min_ind. (pre @ xs) ! j \<noteq> NaN)"
  using assms
proof (induction xs arbitrary: pre i mp min_ind)
  case Nil
  then show ?case by auto
next
  case (Cons x xs)
  show ?case
  proof (cases "x = NaN")
    case True
    then have "\<not> np_ge x mp" by (simp add: np_ge_def np_lt_NaN)
    with True Cons.prems(1,2) show ?thesis by (simp add: nth_append)
  next
    case False
    have l: "length (pre @ [x]) = Suc i" using Cons.prems(1) by simp
    have nn: "\<forall>j<Suc i. (pre @ [x]) ! j \<noteq> NaN"
    proof (intro allI impI)
      fix j assume "j < Suc i"
      then consider "j < i" | "j = i" by linarith
      then show "(pre @ [x]) ! j \<noteq> NaN"
      proof cases
        case 1
        with Cons.prems(1,2) show ?thesis by (simp add: nth_append)
      next
        case 2
        with Cons.prems(1) False show ?thesis by (simp add: nth_append)
      qed
    qed
    have ex: "\<exists>j<length ((pre @ [x]) @ xs). ((pre @ [x]) @ xs) ! j = NaN"
      using Cons.prems(3) by simp
    have r: "((pre @ [x]) @ xs) ! argmin_loop xs (Suc i) mp' mi' = NaN
      \<and> (\<forall>j<argmin_loop xs (Suc i) mp' mi'. ((pre @ [x]) @ xs) ! j \<noteq> NaN)" for mp' mi'
      using l nn ex by (rule Cons.IH)
    show ?thesis
    proof (cases "np_ge x mp")
      case True
      with r [of mp min_ind] show ?thesis by simp
    next
      case ng: False
      with False r [of x i] show ?thesis by simp
    qed
  qed
qed

lemma np_argmin_spec:
  assumes "a \<noteq> []"
  shows "\<exists>idx. np_argmin a = Inr idx \<and> idx < length a
    \<and> (\<forall>j<length a. \<not> np_lt (a ! j) (a ! idx))
    \<and> (\<forall>j<idx. \<not> np_le (a ! j) (a ! idx))
    \<and> ((\<exists>j<length a. a ! j = NaN) \<longrightarrow> a ! idx = NaN \<and> (\<forall>j<idx. a ! j \<noteq> NaN))"
proof -
  from assms obtain mp rest where a: "a = mp # rest" by (cases a) auto
  show ?thesis
  proof (cases "mp = NaN")
    case True
    with a show ?thesis by (simp add: np_argmin_def np_lt_NaN)
  next
    case False
    have s: "argmin_loop rest 1 mp 0 < length ([mp] @ rest)
      \<and> (\<forall>j<length ([mp] @ rest). \<not> np_lt (([mp] @ rest) ! j) (([mp] @ rest) ! argmin_loop rest 1 mp 0))
      \<and> (\<forall>j<argmin_loop rest 1 mp 0.
            \<not> np_le (([mp] @ rest) ! j) (([mp] @ rest) ! argmin_loop rest 1 mp 0))"
      by (rule argmin_loop_spec) (simp_all add: False np_lt_irrefl)
    have n: "([mp] @ rest) ! argmin_loop rest 1 mp 0 = NaN
      \<and> (\<forall>j<argmin_loop rest 1 mp 0. ([mp] @ rest) ! j \<noteq> NaN)"
      if "\<exists>j<length ([mp] @ rest). ([mp] @ rest) ! j = NaN"
      by (rule argmin_loop_nan [OF _ _ that]) (simp_all add: False)
    from a False s n show ?thesis by (simp add: np_argmin_def)
  qed
qed

section \<open>The sweep: voltages and the response\<close>

lemma length_linspace: "length (linspace F start stop num) = num"
  by (simp add: linspace_def Let_def)

lemma linspace_last: "linspace F start stop 300 ! 299 = Fin stop"
  by (simp add: linspace_def Let_def)

lemma linspace_nth:
  assumes "k < 299"
  shows "linspace F start stop 300 ! k =
    np_add F
      (if np_true_divide F (np_sub F (Fin stop) (Fin start)) (Fin 299) = Fin 0
       then np_mul F (np_true_divide F (Fin (real k)) (Fin 299)) (np_sub F (Fin stop) (Fin start))
       else np_mul F (Fin (real k))
              (np_true_divide F (np_sub F (Fin stop) (Fin start)) (Fin 299)))
      (Fin start)"
  using assms by (simp add: linspace_def Let_def)

lemma sweep_recognised:
  assumes "DiodePhysics_init mat temp (51 / 10) = Inr sim"
    and "Is sim = Some self_Is" and "n sim = Some self_n"
  shows "\<exists>idx. idx < 300
    \<and> (\<forall>j<300. \<not> np_lt
          (np_abs (np_sub F (compute_elem F self_n (vt sim) self_Is (slope sim) (breakdown sim)
              (linspace F start stop 300 ! j))
              (if mat = ''Ge'' then rnd F (5 / 10000) else rnd F (1 / 1000))))
          (np_abs (np_sub F (compute_elem F self_n (vt sim) self_Is (slope sim) (breakdown sim)
              (linspace F start stop 300 ! idx))
              (if mat = ''Ge'' then rnd F (5 / 10000) else rnd F (1 / 1000)))))
    \<and> (\<forall>j<idx. \<not> np_le
          (np_abs (np_sub F (compute_elem F self_n (vt sim) self_Is (slope sim) (breakdown sim)
              (linspace F start stop 300 ! j))
              (if mat = ''Ge'' then rnd F (5 / 10000) else rnd F (1 / 1000))))
          (np_abs (np_sub F (compute_elem F self_n (vt sim) self_Is (slope sim) (breakdown sim)
              (linspace F start stop 300 ! idx))
              (if mat = ''Ge'' then rnd F (5 / 10000) else rnd F (1 / 1000)))))
    \<and> ((\<exists>j<300. np_abs (np_sub F (compute_elem F self_n (vt sim) self_Is (slope sim)
              (breakdown sim) (linspace F start stop 300 ! j))
              (if mat = ''Ge'' then rnd F (5 / 10000) else rnd F (1 / 1000))) = NaN) \<longrightarrow>
         np_abs (np_sub F (compute_elem F self_n (vt sim) self_Is (slope sim)
              (breakdown sim) (linspace F start stop 300 ! idx))
              (if mat = ''Ge'' then rnd F (5 / 10000) else rnd F (1 / 1000))) = NaN
         \<and> (\<forall>j<idx. np_abs (np_sub F (compute_elem F self_n (vt sim) self_Is (slope sim)
              (breakdown sim) (linspace F start stop 300 ! j))
              (if mat = ''Ge'' then rnd F (5 / 10000) else rnd F (1 / 1000))) \<noteq> NaN))
    \<and> sweep F mat start stop temp =
        Inr \<lparr>sw_data = map (\<lambda>v. \<lparr>s_v = py_round F v 3,
                  s_i = compute_elem F self_n (vt sim) self_Is (slope sim) (breakdown sim) v,
                  s_p = np_mul F v
                         (compute_elem F self_n (vt sim) self_Is (slope sim) (breakdown sim) v)\<rparr>)
                (linspace F start stop 300),
             sw_saddle = \<lparr>sp_v = py_round F (linspace F start stop 300 ! idx) 3,
                          sp_i = compute_elem F self_n (vt sim) self_Is (slope sim) (breakdown sim)
                                   (linspace F start stop 300 ! idx)\<rparr>,
             sw_saturation = self_Is,
             sw_breakdown = breakdown sim\<rparr>"
proof -
  let ?f = "compute_elem F self_n (vt sim) self_Is (slope sim) (breakdown sim)"
  let ?vs = "linspace F start stop 300"
  let ?thr = "if mat = ''Ge'' then rnd F (5 / 10000) else rnd F (1 / 1000)"
  let ?ds = "map (\<lambda>c. np_abs (np_sub F c ?thr)) (map ?f ?vs)"
  have ca: "compute_array F sim ?vs = Inr (map ?f ?vs)"
    using assms(2,3) by (simp add: compute_array_def)
  have len: "length ?vs = 300" by (rule length_linspace)
  then have "?ds \<noteq> []" by auto
  from np_argmin_spec [OF this] obtain idx where
    idx: "np_argmin ?ds = Inr idx" "idx < length ?ds"
      "\<forall>j<length ?ds. \<not> np_lt (?ds ! j) (?ds ! idx)"
      "\<forall>j<idx. \<not> np_le (?ds ! j) (?ds ! idx)"
      "(\<exists>j<length ?ds. ?ds ! j = NaN) \<longrightarrow> ?ds ! idx = NaN \<and> (\<forall>j<idx. ?ds ! j \<noteq> NaN)"
    by blast
  from idx(2) len have i300: "idx < 300" by simp
  have dn: "?ds ! j = np_abs (np_sub F (?f (?vs ! j)) ?thr)" if "j < 300" for j
    using that len by simp
  have data: "map (\<lambda>(v, i, p). \<lparr>s_v = py_round F v 3, s_i = i, s_p = p\<rparr>)
                (zip ?vs (zip (map ?f ?vs) (map2 (np_mul F) ?vs (map ?f ?vs))))
            = map (\<lambda>v. \<lparr>s_v = py_round F v 3, s_i = ?f v, s_p = np_mul F v (?f v)\<rparr>) ?vs"
    by (rule nth_equalityI) (simp_all add: len)
  have sw: "sweep F mat start stop temp =
        Inr \<lparr>sw_data = map (\<lambda>v. \<lparr>s_v = py_round F v 3, s_i = ?f v, s_p = np_mul F v (?f v)\<rparr>) ?vs,
             sw_saddle = \<lparr>sp_v = py_round F (?vs ! idx) 3, sp_i = ?f (?vs ! idx)\<rparr>,
             sw_saturation = self_Is,
             sw_breakdown = breakdown sim\<rparr>"
    unfolding sweep_def Let_def assms(1) sum.case ca data
    using idx(1) i300 assms(2) by (simp add: len)
  have a: "\<forall>j<300. \<not> np_lt (np_abs (np_sub F (?f (?vs ! j)) ?thr))
        (np_abs (np_sub F (?f (?vs ! idx)) ?thr))"
  proof (intro allI impI)
    fix j :: nat assume j: "j < 300"
    with idx(3) len have "\<not> np_lt (?ds ! j) (?ds ! idx)" by simp
    then show "\<not> np_lt (np_abs (np_sub F (?f (?vs ! j)) ?thr))
        (np_abs (np_sub F (?f (?vs ! idx)) ?thr))"
      unfolding dn [OF j] dn [OF i300] .
  qed
  have b: "\<forall>j<idx. \<not> np_le (np_abs (np_sub F (?f (?vs ! j)) ?thr))
        (np_abs (np_sub F (?f (?vs ! idx)) ?thr))"
  proof (intro allI impI)
    fix j :: nat assume j: "j < idx"
    with i300 have j300: "j < 300" by simp
    from j idx(4) have "\<not> np_le (?ds ! j) (?ds ! idx)" by simp
    then show "\<not> np_le (np_abs (np_sub F (?f (?vs ! j)) ?thr))
        (np_abs (np_sub F (?f (?vs ! idx)) ?thr))"
      unfolding dn [OF j300] dn [OF i300] .
  qed
  have c: "np_abs (np_sub F (?f (?vs ! idx)) ?thr) = NaN
         \<and> (\<forall>j<idx. np_abs (np_sub F (?f (?vs ! j)) ?thr) \<noteq> NaN)"
    if e: "\<exists>j<300. np_abs (np_sub F (?f (?vs ! j)) ?thr) = NaN"
  proof -
    from e obtain j where j: "j < 300" "np_abs (np_sub F (?f (?vs ! j)) ?thr) = NaN" by blast
    from j(2) have "?ds ! j = NaN" unfolding dn [OF j(1)] .
    with j(1) len have "\<exists>j<length ?ds. ?ds ! j = NaN" by auto
    with idx(5) have n: "?ds ! idx = NaN" "\<forall>j<idx. ?ds ! j \<noteq> NaN" by blast+
    from n(1) have n1: "np_abs (np_sub F (?f (?vs ! idx)) ?thr) = NaN"
      unfolding dn [OF i300] .
    have n2: "\<forall>j<idx. np_abs (np_sub F (?f (?vs ! j)) ?thr) \<noteq> NaN"
    proof (intro allI impI)
      fix k assume k: "k < idx"
      with i300 have k300: "k < 300" by simp
      from n(2) k have "?ds ! k \<noteq> NaN" by simp
      then show "np_abs (np_sub F (?f (?vs ! k)) ?thr) \<noteq> NaN" unfolding dn [OF k300] .
    qed
    from n1 n2 show ?thesis by blast
  qed
  from i300 a b c sw show ?thesis by blast
qed

lemma sweep_returns_cases:
  assumes "sweep F mat start stop temp = Inr r"
  shows "\<exists>sim self_Is self_n. DiodePhysics_init mat temp (51 / 10) = Inr sim
    \<and> Is sim = Some self_Is \<and> n sim = Some self_n"
proof (cases "DiodePhysics_init mat temp (51 / 10)")
  case (Inl e)
  with assms show ?thesis by (simp add: sweep_def)
next
  case (Inr sim)
  note s = this
  show ?thesis
  proof (cases "n sim")
    case None
    with assms s show ?thesis by (simp add: sweep_def compute_array_def)
  next
    case (Some b)
    note b = this
    show ?thesis
    proof (cases "Is sim")
      case None
      with assms s b show ?thesis by (simp add: sweep_def compute_array_def)
    next
      case (Some a)
      with s b show ?thesis by blast
    qed
  qed
qed

section \<open>The saddle point\<close>

text \<open>
  Claim C3, as amended. Whenever \<open>sweep\<close> returns, the saddle point is the sample at
  an index \<open>idx\<close> of the 300, chosen on the 300 differences \<open>\<bar>current - threshold\<bar>\<close> as
  double arithmetic computes them (threshold \<open>0.0005\<close> for Ge, \<open>0.001\<close> for every other
  material). If no difference is nan, the difference at \<open>idx\<close> is at most every other and
  strictly below every earlier one: the first sample of minimal difference. If some
  difference is nan, \<open>idx\<close> is the first sample whose difference is nan. A sweep of one
  of the five materials returns unless the constructor overflows.
\<close>

theorem sweep_saddle:
  "(\<forall>r. sweep F mat start stop temp = Inr r \<longrightarrow>
        length (sw_data r) = 300
        \<and> (\<exists>idx<300.
             sp_v (sw_saddle r) = s_v (sw_data r ! idx)
             \<and> sp_i (sw_saddle r) = s_i (sw_data r ! idx)
             \<and> ((\<forall>j<300. np_abs (np_sub F (s_i (sw_data r ! j))
                     (if mat = ''Ge'' then rnd F (5 / 10000) else rnd F (1 / 1000))) \<noteq> NaN) \<longrightarrow>
                 (\<forall>j<300. np_le
                     (np_abs (np_sub F (s_i (sw_data r ! idx))
                        (if mat = ''Ge'' then rnd F (5 / 10000) else rnd F (1 / 1000))))
                     (np_abs (np_sub F (s_i (sw_data r ! j))
                        (if mat = ''Ge'' then rnd F (5 / 10000) else rnd F (1 / 1000)))))
                 \<and> (\<forall>j<idx. np_lt
                     (np_abs (np_sub F (s_i (sw_data r ! idx))
                        (if mat = ''Ge'' then rnd F (5 / 10000) else rnd F (1 / 1000))))
                     (np_abs (np_sub F (s_i (sw_data r ! j))
                        (if mat = ''Ge'' then rnd F (5 / 10000) else rnd F (1 / 1000))))))
             \<and> ((\<exists>j<300. np_abs (np_sub F (s_i (sw_data r ! j))
                     (if mat = ''Ge'' then rnd F (5 / 10000) else rnd F (1 / 1000))) = NaN) \<longrightarrow>
                 np_abs (np_sub F (s_i (sw_data r ! idx))
                     (if mat = ''Ge'' then rnd F (5 / 10000) else rnd F (1 / 1000))) = NaN
                 \<and> (\<forall>j<idx. np_abs (np_sub F (s_i (sw_data r ! j))
                     (if mat = ''Ge'' then rnd F (5 / 10000) else rnd F (1 / 1000))) \<noteq> NaN))))
   \<and> (mat \<in> set options
        \<and> (mat \<in> set [''Si'', ''Ge'', ''Zener''] \<longrightarrow> (temp - 27) / 10 < 1024) \<longrightarrow>
        (\<exists>r. sweep F mat start stop temp = Inr r))"
proof (intro conjI impI allI)
  assume "mat \<in> set options
        \<and> (mat \<in> set [''Si'', ''Ge'', ''Zener''] \<longrightarrow> (temp - 27) / 10 < 1024)"
  then have m: "mat \<in> set options"
    and t: "mat \<in> set [''Si'', ''Ge'', ''Zener''] \<longrightarrow> (temp - 27) / 10 < 1024" by blast+
  from init_returns [OF m t, of "51 / 10"]
  obtain sim where s: "DiodePhysics_init mat temp (51 / 10) = Inr sim" by blast
  from init_recognised [OF m s]
  obtain self_Is self_n where p: "Is sim = Some self_Is" "n sim = Some self_n" by blast
  from sweep_recognised [OF s p, of F start stop]
  show "\<exists>r. sweep F mat start stop temp = Inr r" by blast
next
  fix r assume r: "sweep F mat start stop temp = Inr r"
  let ?thr = "if mat = ''Ge'' then rnd F (5 / 10000) else rnd F (1 / 1000)"
  from sweep_returns_cases [OF r] obtain sim self_Is self_n where
    p: "DiodePhysics_init mat temp (51 / 10) = Inr sim"
      "Is sim = Some self_Is" "n sim = Some self_n" by blast
  let ?f = "compute_elem F self_n (vt sim) self_Is (slope sim) (breakdown sim)"
  let ?vs = "linspace F start stop 300"
  let ?D = "\<lambda>j. np_abs (np_sub F (?f (?vs ! j)) ?thr)"
  from sweep_recognised [OF p, of F start stop] obtain idx where
    i300: "idx < 300"
    and a: "\<forall>j<300. \<not> np_lt (?D j) (?D idx)"
    and b: "\<forall>j<idx. \<not> np_le (?D j) (?D idx)"
    and c: "(\<exists>j<300. ?D j = NaN) \<longrightarrow> ?D idx = NaN \<and> (\<forall>j<idx. ?D j \<noteq> NaN)"
    and sw: "sweep F mat start stop temp = Inr \<lparr>sw_data = map (\<lambda>v. \<lparr>s_v = py_round F v 3,
                  s_i = ?f v, s_p = np_mul F v (?f v)\<rparr>) ?vs,
             sw_saddle = \<lparr>sp_v = py_round F (?vs ! idx) 3, sp_i = ?f (?vs ! idx)\<rparr>,
             sw_saturation = self_Is,
             sw_breakdown = breakdown sim\<rparr>"
    by (elim exE conjE)
  from r sw have req: "r = \<lparr>sw_data = map (\<lambda>v. \<lparr>s_v = py_round F v 3, s_i = ?f v,
                  s_p = np_mul F v (?f v)\<rparr>) ?vs,
             sw_saddle = \<lparr>sp_v = py_round F (?vs ! idx) 3, sp_i = ?f (?vs ! idx)\<rparr>,
             sw_saturation = self_Is,
             sw_breakdown = breakdown sim\<rparr>"
    by simp
  have len: "length ?vs = 300" by (rule length_linspace)
  have si: "s_i (sw_data r ! j) = ?f (?vs ! j)" if "j < 300" for j
    using that by (simp add: req len)
  have dj: "np_abs (np_sub F (s_i (sw_data r ! j)) ?thr) = ?D j" if "j < 300" for j
    unfolding si [OF that] ..
  show "length (sw_data r) = 300" by (simp add: req len)
  have le: "\<forall>j<300. np_le (?D idx) (?D j)" and lt: "\<forall>j<idx. np_lt (?D idx) (?D j)"
    if nn: "\<forall>j<300. ?D j \<noteq> NaN"
  proof -
    show "\<forall>j<300. np_le (?D idx) (?D j)"
    proof (intro allI impI)
      fix j :: nat assume j: "j < 300"
      from nn j i300 have "?D j \<noteq> NaN" "?D idx \<noteq> NaN" by blast+
      moreover from a j have "\<not> np_lt (?D j) (?D idx)" by blast
      ultimately show "np_le (?D idx) (?D j)" by (rule np_not_lt_imp_le)
    qed
    show "\<forall>j<idx. np_lt (?D idx) (?D j)"
    proof (intro allI impI)
      fix j :: nat assume j: "j < idx"
      with i300 have "j < 300" by simp
      with nn i300 have "?D j \<noteq> NaN" "?D idx \<noteq> NaN" by blast+
      moreover from b j have "\<not> np_le (?D j) (?D idx)" by blast
      ultimately show "np_lt (?D idx) (?D j)" by (rule np_not_le_imp_lt)
    qed
  qed
  show "\<exists>idx<300.
             sp_v (sw_saddle r) = s_v (sw_data r ! idx)
             \<and> sp_i (sw_saddle r) = s_i (sw_data r ! idx)
             \<and> ((\<forall>j<300. np_abs (np_sub F (s_i (sw_data r ! j)) ?thr) \<noteq> NaN) \<longrightarrow>
                 (\<forall>j<300. np_le
                     (np_abs (np_sub F (s_i (sw_data r ! idx)) ?thr))
                     (np_abs (np_sub F (s_i (sw_data r ! j)) ?thr)))
                 \<and> (\<forall>j<idx. np_lt
                     (np_abs (np_sub F (s_i (sw_data r ! idx)) ?thr))
                     (np_abs (np_sub F (s_i (sw_data r ! j)) ?thr))))
             \<and> ((\<exists>j<300. np_abs (np_sub F (s_i (sw_data r ! j)) ?thr) = NaN) \<longrightarrow>
                 np_abs (np_sub F (s_i (sw_data r ! idx)) ?thr) = NaN
                 \<and> (\<forall>j<idx. np_abs (np_sub F (s_i (sw_data r ! j)) ?thr) \<noteq> NaN))"
  proof (intro exI [of _ idx] conjI impI)
    show "idx < 300" by (rule i300)
    show "sp_v (sw_saddle r) = s_v (sw_data r ! idx)" using i300 by (simp add: req len)
    show "sp_i (sw_saddle r) = s_i (sw_data r ! idx)" using i300 by (simp add: req len)
  next
    assume "\<forall>j<300. np_abs (np_sub F (s_i (sw_data r ! j)) ?thr) \<noteq> NaN"
    then have nn: "\<forall>j<300. ?D j \<noteq> NaN" using dj by simp
    from le [OF nn] show "\<forall>j<300. np_le
                     (np_abs (np_sub F (s_i (sw_data r ! idx)) ?thr))
                     (np_abs (np_sub F (s_i (sw_data r ! j)) ?thr))"
      using dj i300 by simp
  next
    assume "\<forall>j<300. np_abs (np_sub F (s_i (sw_data r ! j)) ?thr) \<noteq> NaN"
    then have nn: "\<forall>j<300. ?D j \<noteq> NaN" using dj by simp
    show "\<forall>j<idx. np_lt
                     (np_abs (np_sub F (s_i (sw_data r ! idx)) ?thr))
                     (np_abs (np_sub F (s_i (sw_data r ! j)) ?thr))"
    proof (intro allI impI)
      fix j :: nat assume j: "j < idx"
      with i300 have j300: "j < 300" by simp
      from lt [OF nn] j have "np_lt (?D idx) (?D j)" by blast
      then show "np_lt (np_abs (np_sub F (s_i (sw_data r ! idx)) ?thr))
                     (np_abs (np_sub F (s_i (sw_data r ! j)) ?thr))"
        unfolding dj [OF j300] dj [OF i300] .
    qed
  next
    assume "\<exists>j<300. np_abs (np_sub F (s_i (sw_data r ! j)) ?thr) = NaN"
    then obtain j where j: "j < 300" "np_abs (np_sub F (s_i (sw_data r ! j)) ?thr) = NaN"
      by blast
    from j(2) have "?D j = NaN" unfolding dj [OF j(1)] .
    with j(1) c have n: "?D idx = NaN" "\<forall>j<idx. ?D j \<noteq> NaN" by blast+
    from n(1) show "np_abs (np_sub F (s_i (sw_data r ! idx)) ?thr) = NaN"
      unfolding dj [OF i300] .
  next
    assume "\<exists>j<300. np_abs (np_sub F (s_i (sw_data r ! j)) ?thr) = NaN"
    then obtain j where j: "j < 300" "np_abs (np_sub F (s_i (sw_data r ! j)) ?thr) = NaN"
      by blast
    from j(2) have "?D j = NaN" unfolding dj [OF j(1)] .
    with j(1) c have n: "\<forall>j<idx. ?D j \<noteq> NaN" by blast
    show "\<forall>j<idx. np_abs (np_sub F (s_i (sw_data r ! j)) ?thr) \<noteq> NaN"
    proof (intro allI impI)
      fix k :: nat assume k: "k < idx"
      with i300 have k300: "k < 300" by simp
      from n k have "?D k \<noteq> NaN" by blast
      then show "np_abs (np_sub F (s_i (sw_data r ! k)) ?thr) \<noteq> NaN" unfolding dj [OF k300] .
    qed
  qed
qed

lemma exact_linspace_Fin:
  assumes "k < 300"
  shows "\<exists>x. linspace exact_fpu start stop 300 ! k = Fin x"
proof (cases "k = 299")
  case True
  then show ?thesis by (simp add: linspace_last)
next
  case False
  with assms have "k < 299" by simp
  then show ?thesis by (simp add: linspace_nth exact_fpu_def np_sub_def)
qed

lemma exact_compute_elem_Fin:
  assumes "self_n * self_vt \<noteq> 0"
  shows "\<exists>y. compute_elem exact_fpu self_n self_vt self_Is self_slope self_breakdown (Fin v)
    = Fin y"
  using assms by (simp add: compute_elem_def exact_fpu_def np_sub_def)

lemma init_Ge_27:
  "DiodePhysics_init ''Ge'' 27 (51 / 10) =
     Inr \<lparr>temp_k = 30015 / 100, vt = (BOLTZMANN_K * (30015 / 100)) / ELECTRON_Q,
          breakdown = - 20, slope = 10, Is = Some (1 / 10 ^ 6), n = Some 1\<rparr>"
  by (simp add: DiodePhysics_init_def)

theorem sweep_saddle_witness:
  "''Ge'' \<in> set options
   \<and> ((27 :: real) - 27) / 10 < 1024
   \<and> (\<exists>r. sweep exact_fpu ''Ge'' (- 1) 1 27 = Inr r \<and> length (sw_data r) = 300
        \<and> (\<exists>idx<300. sp_v (sw_saddle r) = s_v (sw_data r ! idx)
              \<and> sp_i (sw_saddle r) = s_i (sw_data r ! idx)
              \<and> np_le (np_abs (np_sub exact_fpu (s_i (sw_data r ! idx)) (Fin (5 / 10000))))
                       (np_abs (np_sub exact_fpu (s_i (sw_data r ! 0)) (Fin (5 / 10000))))
              \<and> np_le (np_abs (np_sub exact_fpu (s_i (sw_data r ! idx)) (Fin (5 / 10000))))
                       (np_abs (np_sub exact_fpu (s_i (sw_data r ! 299)) (Fin (5 / 10000))))))"
proof -
  let ?vt = "(BOLTZMANN_K * (30015 / 100)) / ELECTRON_Q"
  let ?f = "compute_elem exact_fpu 1 ?vt (1 / 10 ^ 6) 10 (- 20)"
  let ?vs = "linspace exact_fpu (- 1) 1 300"
  let ?thr = "if ''Ge'' = ''Ge'' then rnd exact_fpu (5 / 10000) else rnd exact_fpu (1 / 1000)"
  have h: "''Ge'' \<in> set options" "((27 :: real) - 27) / 10 < 1024"
    by (simp_all add: options_def)
  have nz: "1 * ?vt \<noteq> 0" by (simp add: BOLTZMANN_K_def ELECTRON_Q_def)
  from sweep_recognised [OF init_Ge_27, of "1 / 10 ^ 6" 1 exact_fpu "- 1" 1]
  obtain r where r: "sweep exact_fpu ''Ge'' (- 1) 1 27 = Inr r"
    and d: "sw_data r = map (\<lambda>v. \<lparr>s_v = py_round exact_fpu v 3, s_i = ?f v,
              s_p = np_mul exact_fpu v (?f v)\<rparr>) ?vs"
    by auto
  have len: "length ?vs = 300" by (rule length_linspace)
  have fin: "\<exists>y. s_i (sw_data r ! j) = Fin y" if "j < 300" for j
  proof -
    from exact_linspace_Fin [OF that, of "- 1" 1] obtain x where "?vs ! j = Fin x" by blast
    with exact_compute_elem_Fin [OF nz, of "1 / 10 ^ 6" 10 "- 20" x] that
    show ?thesis by (simp add: d len)
  qed
  have nn: "\<forall>j<300. np_abs (np_sub exact_fpu (s_i (sw_data r ! j)) ?thr) \<noteq> NaN"
  proof (intro allI impI)
    fix j :: nat assume "j < 300"
    from fin [OF this] obtain y where "s_i (sw_data r ! j) = Fin y" by blast
    then show "np_abs (np_sub exact_fpu (s_i (sw_data r ! j)) ?thr) \<noteq> NaN"
      by (simp add: exact_fpu_def np_sub_def)
  qed
  note t = sweep_saddle [of exact_fpu "''Ge''" "- 1" 1 27]
  note u = t [THEN conjunct1, THEN spec, THEN mp, OF r]
  from u have l: "length (sw_data r) = 300" by (rule conjunct1)
  from u [THEN conjunct2] nn
  obtain idx where i: "idx < 300" "sp_v (sw_saddle r) = s_v (sw_data r ! idx)"
    "sp_i (sw_saddle r) = s_i (sw_data r ! idx)"
    and m: "\<forall>j<300. np_le (np_abs (np_sub exact_fpu (s_i (sw_data r ! idx)) ?thr))
                          (np_abs (np_sub exact_fpu (s_i (sw_data r ! j)) ?thr))"
    by blast
  from m have m0: "np_le (np_abs (np_sub exact_fpu (s_i (sw_data r ! idx)) (Fin (5 / 10000))))
                       (np_abs (np_sub exact_fpu (s_i (sw_data r ! 0)) (Fin (5 / 10000))))"
    and m299: "np_le (np_abs (np_sub exact_fpu (s_i (sw_data r ! idx)) (Fin (5 / 10000))))
                       (np_abs (np_sub exact_fpu (s_i (sw_data r ! 299)) (Fin (5 / 10000))))"
    by (simp_all add: exact_fpu_def)
  from h r l i m0 m299 show ?thesis by blast
qed

text \<open>
  Claim C3 as stated (every sweep call) fails when a current is nan. For the sweep of
  RedLED from \<open>0\<close> to \<open>1\<close> V at \<open>-273.15\<close> degrees the first sample is at \<open>0\<close> V over a
  zero \<open>n * vt\<close>: its current is nan, and \<open>argmin\<close> returns it as the saddle point,
  although the current of the next sample is a number.
\<close>

theorem sweep_saddle_counterexample:
  "\<not> isl (sweep exact_fpu ''RedLED'' 0 1 (- (27315 / 100)))
   \<and> sp_v (sw_saddle (projr (sweep exact_fpu ''RedLED'' 0 1 (- (27315 / 100))))) = Fin 0
   \<and> sp_i (sw_saddle (projr (sweep exact_fpu ''RedLED'' 0 1 (- (27315 / 100))))) = NaN
   \<and> s_i (sw_data (projr (sweep exact_fpu ''RedLED'' 0 1 (- (27315 / 100)))) ! 1)
       = Fin (1 / 10 ^ 18 * (exp 50 - 1))"
proof -
  let ?f = "compute_elem exact_fpu 2 0 (1 / 10 ^ 18) 10 (- 5)"
  let ?vs = "linspace exact_fpu 0 1 300"
  let ?D = "\<lambda>j. np_abs (np_sub exact_fpu (?f (?vs ! j))
      (if ''RedLED'' = ''Ge'' then rnd exact_fpu (5 / 10000) else rnd exact_fpu (1 / 1000)))"
  have v0: "?vs ! 0 = Fin 0"
    by (simp add: linspace_nth exact_fpu_def np_sub_def)
  have v1: "?vs ! 1 = Fin (1 / 299)"
    by (simp add: linspace_nth exact_fpu_def np_sub_def)
  have f0: "?f (Fin 0) = NaN"
    by (simp add: compute_elem_def exact_fpu_def inf_of_sign_def np_sub_def)
  have f1: "?f (Fin (1 / 299)) = Fin (1 / 10 ^ 18 * (exp 50 - 1))"
    by (simp add: compute_elem_def exact_fpu_def inf_of_sign_def np_sub_def)
  have d0: "?D 0 = NaN" using f0 by (simp add: v0 np_sub_def)
  from init_RedLED_zero have i: "DiodePhysics_init ''RedLED'' (- (27315 / 100)) (51 / 10) =
     Inr \<lparr>temp_k = 0, vt = 0, breakdown = - 5, slope = 10, Is = Some (1 / 10 ^ 18), n = Some 2\<rparr>" .
  from sweep_recognised [OF i, of "1 / 10 ^ 18" 2 exact_fpu 0 1]
  obtain idx where i300: "idx < 300"
    and c: "(\<exists>j<300. ?D j = NaN) \<longrightarrow> ?D idx = NaN \<and> (\<forall>j<idx. ?D j \<noteq> NaN)"
    and sw: "sweep exact_fpu ''RedLED'' 0 1 (- (27315 / 100)) =
        Inr \<lparr>sw_data = map (\<lambda>v. \<lparr>s_v = py_round exact_fpu v 3, s_i = ?f v,
                  s_p = np_mul exact_fpu v (?f v)\<rparr>) ?vs,
             sw_saddle = \<lparr>sp_v = py_round exact_fpu (?vs ! idx) 3, sp_i = ?f (?vs ! idx)\<rparr>,
             sw_saturation = 1 / 10 ^ 18,
             sw_breakdown = - 5\<rparr>"
    by simp (elim exE conjE)
  from d0 have "\<exists>j<300. ?D j = NaN" by (intro exI [of _ 0]) simp
  with c have "\<forall>j<idx. ?D j \<noteq> NaN" by blast
  with d0 have "idx = 0" by (cases "idx = 0") auto
  have len: "length ?vs = 300" by (rule length_linspace)
  have r0: "py_round exact_fpu (Fin 0) 3 = Fin 0"
    by (simp add: exact_fpu_def rint_def)
  show ?thesis unfolding sw using \<open>idx = 0\<close> v0 v1 f0 f1 r0 by (simp add: len)
qed

section \<open>The samples of a sweep\<close>

lemma step_zero_delta:
  assumes "np_true_divide F delta (Fin 299) = Fin s"
  obtains d where "delta = Fin d" "rnd F (d / 299) = Fin s"
  using assms by (cases delta) auto

lemma linspace_first:
  assumes zero: "rnd F 0 = Fin 0" and st: "rnd F start = Fin start"
    and step: "np_true_divide F (np_sub F (Fin stop) (Fin start)) (Fin 299) = Fin s"
  shows "linspace F start stop 300 ! 0 = Fin start"
proof -
  let ?delta = "np_sub F (Fin stop) (Fin start)"
  from step obtain d where d: "?delta = Fin d" and ds: "rnd F (d / 299) = Fin s"
    by (rule step_zero_delta)
  have y: "(if np_true_divide F ?delta (Fin 299) = Fin 0
       then np_mul F (np_true_divide F (Fin (real 0)) (Fin 299)) ?delta
       else np_mul F (Fin (real 0)) (np_true_divide F ?delta (Fin 299))) = Fin 0"
    using zero ds by (simp add: d)
  have "linspace F start stop 300 ! 0 = np_add F (Fin 0) (Fin start)"
    unfolding linspace_nth [of 0 F start stop, simplified] using y by simp
  with st show ?thesis by simp
qed

lemma linspace_mono:
  assumes mono: "\<forall>x y. x \<le> y \<longrightarrow> np_le (rnd F x) (rnd F y)"
    and zero: "rnd F 0 = Fin 0" and one: "rnd F 1 = Fin 1"
    and lt: "start < stop"
    and step: "np_true_divide F (np_sub F (Fin stop) (Fin start)) (Fin 299) = Fin s"
    and jk: "j \<le> k" "k < 299"
  shows "np_le (linspace F start stop 300 ! j) (linspace F start stop 300 ! k)"
proof -
  let ?delta = "np_sub F (Fin stop) (Fin start)"
  from step obtain d where d: "?delta = Fin d" and ds: "rnd F (d / 299) = Fin s"
    by (rule step_zero_delta)
  from lt have "0 \<le> stop + - start" by simp
  with mono have "np_le (rnd F 0) (rnd F (stop + - start))" by blast
  with zero d have d0: "0 \<le> d" by (simp add: np_sub_def)
  then have "0 \<le> d / 299" by simp
  with mono have "np_le (rnd F 0) (rnd F (d / 299))" by blast
  with zero ds have s0: "0 \<le> s" by simp
  from jk have j299: "j < 299" by simp
  let ?Y = "\<lambda>i. if np_true_divide F ?delta (Fin 299) = Fin 0
       then np_mul F (np_true_divide F (Fin (real i)) (Fin 299)) ?delta
       else np_mul F (Fin (real i)) (np_true_divide F ?delta (Fin 299))"
  have "np_le (?Y j) (?Y k)"
  proof (cases "s = 0")
    case True
    have fin: "\<exists>a. rnd F (real i / 299) = Fin a \<and> 0 \<le> a" if "i < 299" for i
    proof -
      have "0 \<le> real i / 299" by simp
      with mono have "np_le (rnd F 0) (rnd F (real i / 299))" by blast
      moreover from that have "real i / 299 \<le> 1" by simp
      with mono have "np_le (rnd F (real i / 299)) (rnd F 1)" by blast
      ultimately show ?thesis using zero one by (cases "rnd F (real i / 299)") auto
    qed
    from fin [OF j299] obtain a where a: "rnd F (real j / 299) = Fin a" "0 \<le> a" by blast
    from fin [OF jk(2)] obtain b where b: "rnd F (real k / 299) = Fin b" "0 \<le> b" by blast
    from jk(1) have "real j / 299 \<le> real k / 299" by simp
    with mono have "np_le (rnd F (real j / 299)) (rnd F (real k / 299))" by blast
    with a b have "a \<le> b" by simp
    then have "a * d \<le> b * d" using d0 by (rule mult_right_mono)
    with mono have "np_le (rnd F (a * d)) (rnd F (b * d))" by blast
    with True step d a b show ?thesis by simp
  next
    case False
    from jk(1) s0 have "real j * s \<le> real k * s" by (simp add: mult_right_mono)
    with mono have "np_le (rnd F (real j * s)) (rnd F (real k * s))" by blast
    with False step show ?thesis by simp
  qed
  from np_add_mono [OF mono this, of start] show ?thesis
    unfolding linspace_nth [OF j299] linspace_nth [OF jk(2)] .
qed

text \<open>
  Claim C2, as amended. For an instance the constructor returns for one of the five
  materials, the sweep returns exactly 300 samples. Sample \<open>k\<close> carries the sweep voltage
  \<open>k\<close> of \<open>linspace\<close> rounded to three decimals, the current \<open>compute\<close> gives at the
  unrounded voltage, with no noise, and as power the unrounded voltage times that
  current. The sweep voltages are \<open>start + k * step\<close> in double arithmetic, with
  \<open>step = (stop - start) / 299\<close>, and the last one is \<open>stop\<close>. When the step is finite,
  the first one is \<open>start\<close>, and for \<open>start < stop\<close> the sweep voltages before the last
  and the voltages returned for them are non-decreasing (with monotone roundings that
  keep \<open>0\<close>, \<open>1\<close> and \<open>start\<close>). The returned voltages are not strictly ascending.
\<close>

theorem sweep_samples:
  assumes "mat \<in> set options" and "DiodePhysics_init mat temp (51 / 10) = Inr sim"
  shows "\<exists>r. sweep F mat start stop temp = Inr r
    \<and> length (sw_data r) = 300
    \<and> length (linspace F start stop 300) = 300
    \<and> compute_array F sim (linspace F start stop 300) = Inr (map s_i (sw_data r))
    \<and> (\<forall>k<300. s_v (sw_data r ! k) = py_round F (linspace F start stop 300 ! k) 3
          \<and> (\<forall>x. linspace F start stop 300 ! k = Fin x \<longrightarrow>
                compute F sim x = Inr (s_i (sw_data r ! k)))
          \<and> s_p (sw_data r ! k) = np_mul F (linspace F start stop 300 ! k) (s_i (sw_data r ! k)))
    \<and> linspace F start stop 300 ! 299 = Fin stop
    \<and> (\<forall>k<299. linspace F start stop 300 ! k =
          np_add F
            (if np_true_divide F (np_sub F (Fin stop) (Fin start)) (Fin 299) = Fin 0
             then np_mul F (np_true_divide F (Fin (real k)) (Fin 299))
                    (np_sub F (Fin stop) (Fin start))
             else np_mul F (Fin (real k))
                    (np_true_divide F (np_sub F (Fin stop) (Fin start)) (Fin 299)))
            (Fin start))
    \<and> (rnd F 0 = Fin 0 \<and> rnd F start = Fin start
          \<and> (\<exists>s. np_true_divide F (np_sub F (Fin stop) (Fin start)) (Fin 299) = Fin s) \<longrightarrow>
        linspace F start stop 300 ! 0 = Fin start)
    \<and> ((\<forall>x y. x \<le> y \<longrightarrow> np_le (rnd F x) (rnd F y)) \<and> rnd F 0 = Fin 0 \<and> rnd F 1 = Fin 1
          \<and> (\<forall>x y. x \<le> y \<longrightarrow> np_le (fround F x 3) (fround F y 3))
          \<and> start < stop
          \<and> (\<exists>s. np_true_divide F (np_sub F (Fin stop) (Fin start)) (Fin 299) = Fin s) \<longrightarrow>
        (\<forall>j k. j \<le> k \<and> k < 299 \<longrightarrow>
           np_le (linspace F start stop 300 ! j) (linspace F start stop 300 ! k)
           \<and> np_le (s_v (sw_data r ! j)) (s_v (sw_data r ! k))))"
proof -
  from init_recognised [OF assms]
  obtain self_Is self_n where p: "Is sim = Some self_Is" "n sim = Some self_n" by blast
  let ?f = "compute_elem F self_n (vt sim) self_Is (slope sim) (breakdown sim)"
  let ?vs = "linspace F start stop 300"
  let ?step = "np_true_divide F (np_sub F (Fin stop) (Fin start)) (Fin 299)"
  from sweep_recognised [OF assms(2) p, of F start stop] obtain idx where
    sw: "sweep F mat start stop temp = Inr \<lparr>sw_data = map (\<lambda>v. \<lparr>s_v = py_round F v 3,
                  s_i = ?f v, s_p = np_mul F v (?f v)\<rparr>) ?vs,
             sw_saddle = \<lparr>sp_v = py_round F (?vs ! idx) 3, sp_i = ?f (?vs ! idx)\<rparr>,
             sw_saturation = self_Is,
             sw_breakdown = breakdown sim\<rparr>"
    by (elim exE conjE)
  then obtain r where r: "sweep F mat start stop temp = Inr r"
    and d: "sw_data r = map (\<lambda>v. \<lparr>s_v = py_round F v 3, s_i = ?f v,
                  s_p = np_mul F v (?f v)\<rparr>) ?vs"
    by simp
  have len: "length ?vs = 300" by (rule length_linspace)
  have l: "length (sw_data r) = 300" by (simp add: d len)
  have arr: "compute_array F sim ?vs = Inr (map s_i (sw_data r))"
    using p by (simp add: compute_array_def d comp_def)
  have smp: "\<forall>k<300. s_v (sw_data r ! k) = py_round F (?vs ! k) 3
          \<and> (\<forall>x. ?vs ! k = Fin x \<longrightarrow> compute F sim x = Inr (s_i (sw_data r ! k)))
          \<and> s_p (sw_data r ! k) = np_mul F (?vs ! k) (s_i (sw_data r ! k))"
    by (simp add: d len compute_recognised [OF p])
  have last: "?vs ! 299 = Fin stop" by (rule linspace_last)
  have nth: "\<forall>k<299. ?vs ! k =
          np_add F
            (if ?step = Fin 0
             then np_mul F (np_true_divide F (Fin (real k)) (Fin 299))
                    (np_sub F (Fin stop) (Fin start))
             else np_mul F (Fin (real k)) ?step)
            (Fin start)"
    using linspace_nth by blast
  have first: "rnd F 0 = Fin 0 \<and> rnd F start = Fin start \<and> (\<exists>s. ?step = Fin s) \<longrightarrow>
        ?vs ! 0 = Fin start"
    using linspace_first by blast
  have ord: "\<forall>j k. j \<le> k \<and> k < 299 \<longrightarrow>
           np_le (?vs ! j) (?vs ! k) \<and> np_le (s_v (sw_data r ! j)) (s_v (sw_data r ! k))"
    if h: "(\<forall>x y. x \<le> y \<longrightarrow> np_le (rnd F x) (rnd F y)) \<and> rnd F 0 = Fin 0 \<and> rnd F 1 = Fin 1
          \<and> (\<forall>x y. x \<le> y \<longrightarrow> np_le (fround F x 3) (fround F y 3))
          \<and> start < stop \<and> (\<exists>s. ?step = Fin s)"
  proof (intro allI impI)
    fix j k :: nat assume jk: "j \<le> k \<and> k < 299"
    from h obtain s where s: "?step = Fin s" by blast
    from h have h1: "\<forall>x y. x \<le> y \<longrightarrow> np_le (rnd F x) (rnd F y)"
      and h2: "rnd F 0 = Fin 0" and h3: "rnd F 1 = Fin 1" and h4: "start < stop"
      and h5: "\<forall>x y. x \<le> y \<longrightarrow> np_le (fround F x 3) (fround F y 3)" by blast+
    from jk have j1: "j \<le> k" and k1: "k < 299" by blast+
    from linspace_mono [OF h1 h2 h3 h4 s j1 k1] have v: "np_le (?vs ! j) (?vs ! k)" .
    from py_round_mono [OF h5 v] jk
    have "np_le (s_v (sw_data r ! j)) (s_v (sw_data r ! k))" by (simp add: d len)
    with v show "np_le (?vs ! j) (?vs ! k) \<and> np_le (s_v (sw_data r ! j)) (s_v (sw_data r ! k))"
      by blast
  qed
  from r l len arr smp last nth first ord show ?thesis by blast
qed

theorem sweep_samples_witness:
  "''Si'' \<in> set options
   \<and> DiodePhysics_init ''Si'' 27 (51 / 10) =
     Inr \<lparr>temp_k = 30015 / 100, vt = (BOLTZMANN_K * (30015 / 100)) / ELECTRON_Q,
          breakdown = - 50, slope = 10, Is = Some (1 / 10 ^ 12), n = Some (3 / 2)\<rparr>
   \<and> rnd exact_fpu 0 = Fin 0 \<and> rnd exact_fpu 1 = Fin 1 \<and> rnd exact_fpu (- 2) = Fin (- 2)
   \<and> (- 2 :: real) < 3 / 2
   \<and> np_true_divide exact_fpu (np_sub exact_fpu (Fin (3 / 2)) (Fin (- 2))) (Fin 299)
        = Fin (7 / 598)
   \<and> (\<exists>r. sweep exact_fpu ''Si'' (- 2) (3 / 2) 27 = Inr r \<and> length (sw_data r) = 300
        \<and> linspace exact_fpu (- 2) (3 / 2) 300 ! 0 = Fin (- 2)
        \<and> linspace exact_fpu (- 2) (3 / 2) 300 ! 299 = Fin (3 / 2)
        \<and> s_v (sw_data r ! 0) = py_round exact_fpu (Fin (- 2)) 3
        \<and> np_le (s_v (sw_data r ! 0)) (s_v (sw_data r ! 298)))"
proof -
  have h: "''Si'' \<in> set options" by (simp add: options_def)
  have g: "rnd exact_fpu 1 = Fin 1" "rnd exact_fpu (- 2) = Fin (- 2)" "(- 2 :: real) < 3 / 2"
    by (simp_all add: exact_fpu_def)
  have st: "np_true_divide exact_fpu (np_sub exact_fpu (Fin (3 / 2)) (Fin (- 2))) (Fin 299)
        = Fin (7 / 598)"
    by (simp add: exact_fpu_def np_sub_def)
  from sweep_samples [OF h init_Si_27, of exact_fpu "- 2" "3 / 2"] obtain r where
    r: "sweep exact_fpu ''Si'' (- 2) (3 / 2) 27 = Inr r" "length (sw_data r) = 300"
    and s: "\<forall>k<300. s_v (sw_data r ! k) = py_round exact_fpu (linspace exact_fpu (- 2) (3 / 2) 300 ! k) 3
          \<and> (\<forall>x. linspace exact_fpu (- 2) (3 / 2) 300 ! k = Fin x \<longrightarrow>
                compute exact_fpu \<lparr>temp_k = 30015 / 100,
                  vt = (BOLTZMANN_K * (30015 / 100)) / ELECTRON_Q,
                  breakdown = - 50, slope = 10, Is = Some (1 / 10 ^ 12), n = Some (3 / 2)\<rparr> x
                  = Inr (s_i (sw_data r ! k)))
          \<and> s_p (sw_data r ! k) =
              np_mul exact_fpu (linspace exact_fpu (- 2) (3 / 2) 300 ! k) (s_i (sw_data r ! k))"
    and e: "linspace exact_fpu (- 2) (3 / 2) 300 ! 299 = Fin (3 / 2)"
    and f: "rnd exact_fpu 0 = Fin 0 \<and> rnd exact_fpu (- 2) = Fin (- 2)
          \<and> (\<exists>s. np_true_divide exact_fpu (np_sub exact_fpu (Fin (3 / 2)) (Fin (- 2))) (Fin 299)
                = Fin s) \<longrightarrow>
        linspace exact_fpu (- 2) (3 / 2) 300 ! 0 = Fin (- 2)"
    and o: "(\<forall>x y. x \<le> y \<longrightarrow> np_le (rnd exact_fpu x) (rnd exact_fpu y))
          \<and> rnd exact_fpu 0 = Fin 0 \<and> rnd exact_fpu 1 = Fin 1
          \<and> (\<forall>x y. x \<le> y \<longrightarrow> np_le (fround exact_fpu x 3) (fround exact_fpu y 3))
          \<and> (- 2 :: real) < 3 / 2
          \<and> (\<exists>s. np_true_divide exact_fpu (np_sub exact_fpu (Fin (3 / 2)) (Fin (- 2))) (Fin 299)
                = Fin s) \<longrightarrow>
        (\<forall>j k. j \<le> k \<and> k < 299 \<longrightarrow>
           np_le (linspace exact_fpu (- 2) (3 / 2) 300 ! j) (linspace exact_fpu (- 2) (3 / 2) 300 ! k)
           \<and> np_le (s_v (sw_data r ! j)) (s_v (sw_data r ! k)))"
    by (elim exE conjE)
  from f exact_fpu_mono(2) g(2) st
  have v0: "linspace exact_fpu (- 2) (3 / 2) 300 ! 0 = Fin (- 2)" by blast
  from s v0 have s0: "s_v (sw_data r ! 0) = py_round exact_fpu (Fin (- 2)) 3" by simp
  from o exact_fpu_mono(1,2) exact_fpu_round_mono g(1,3) st
  have "\<forall>j k. j \<le> k \<and> k < 299 \<longrightarrow>
           np_le (linspace exact_fpu (- 2) (3 / 2) 300 ! j) (linspace exact_fpu (- 2) (3 / 2) 300 ! k)
           \<and> np_le (s_v (sw_data r ! j)) (s_v (sw_data r ! k))"
    by blast
  then have m: "np_le (s_v (sw_data r ! 0)) (s_v (sw_data r ! 298))" by simp
  from h init_Si_27 exact_fpu_mono(2) g st r v0 e s0 m
  show ?thesis by blast
qed

text \<open>
  Claim C2 as stated fails on the returned voltages. For the sweep of Si from \<open>0\<close> to
  \<open>0.0001\<close> V the first two samples both carry the voltage \<open>0\<close>, and so does the last
  one: the returned voltages are not strictly ascending, not evenly spaced across the
  range, and do not include the end point \<open>0.0001\<close>.
\<close>

theorem sweep_samples_counterexample:
  "(0 :: real) < 1 / 10000
   \<and> \<not> isl (sweep exact_fpu ''Si'' 0 (1 / 10000) 27)
   \<and> s_v (sw_data (projr (sweep exact_fpu ''Si'' 0 (1 / 10000) 27)) ! 0) = Fin 0
   \<and> s_v (sw_data (projr (sweep exact_fpu ''Si'' 0 (1 / 10000) 27)) ! 1) = Fin 0
   \<and> s_v (sw_data (projr (sweep exact_fpu ''Si'' 0 (1 / 10000) 27)) ! 299) = Fin 0"
proof -
  let ?f = "compute_elem exact_fpu (3 / 2) ((BOLTZMANN_K * (30015 / 100)) / ELECTRON_Q)
      (1 / 10 ^ 12) 10 (- 50)"
  let ?vs = "linspace exact_fpu 0 (1 / 10000) 300"
  from sweep_recognised [OF init_Si_27, of "1 / 10 ^ 12" "3 / 2" exact_fpu 0 "1 / 10000"]
  obtain idx where
    sw: "sweep exact_fpu ''Si'' 0 (1 / 10000) 27 =
        Inr \<lparr>sw_data = map (\<lambda>v. \<lparr>s_v = py_round exact_fpu v 3, s_i = ?f v,
                  s_p = np_mul exact_fpu v (?f v)\<rparr>) ?vs,
             sw_saddle = \<lparr>sp_v = py_round exact_fpu (?vs ! idx) 3, sp_i = ?f (?vs ! idx)\<rparr>,
             sw_saturation = 1 / 10 ^ 12,
             sw_breakdown = - 50\<rparr>"
    by simp (elim exE conjE)
  have len: "length ?vs = 300" by (rule length_linspace)
  have v0: "?vs ! 0 = Fin 0" by (simp add: linspace_nth exact_fpu_def np_sub_def)
  have v1: "?vs ! 1 = Fin (1 / 2990000)" by (simp add: linspace_nth exact_fpu_def np_sub_def)
  have v299: "?vs ! 299 = Fin (1 / 10000)" by (rule linspace_last)
  have r0: "py_round exact_fpu (Fin 0) 3 = Fin 0"
    by (simp add: exact_fpu_def rint_def)
  have r1: "py_round exact_fpu (Fin (1 / 2990000)) 3 = Fin 0"
    by (simp add: exact_fpu_def rint_def)
  have r299: "py_round exact_fpu (Fin (1 / 10000)) 3 = Fin 0"
    by (simp add: exact_fpu_def rint_def)
  show ?thesis unfolding sw using v0 v1 v299 r0 r1 r299 by (simp add: len)
qed

end
